theory Spec2Isabelle
  imports Main
begin

text \<open>
  The Turso API client of \<^verbatim>\<open>src/index.ts\<close>: five resource clients over one static method,
  \<^verbatim>\<open>TursoClient.request\<close>, which sends an HTTP request with \<^verbatim>\<open>fetch\<close> and reads the JSON
  of the response. Every method is a function of the world outside it (the answers of
  \<^verbatim>\<open>fetch\<close>, the clock), of the configuration and of its arguments; it returns its
  result or its error together with the fetch calls it evaluated. The definitions follow
  the source method by method; the properties come after them.
\<close>

section \<open>JavaScript values\<close>

text \<open>
  The client is TypeScript; its types are erased when it runs, and a server response is
  whatever \<^verbatim>\<open>response.json()\<close> produced, cast to the expected type without a check. A
  response is therefore a dynamically typed value. \<open>JObj\<close> holds the own properties of an
  object in the order \<^verbatim>\<open>Object.entries\<close> enumerates them, each key once. \<open>JUndefined\<close> is
  the value of a property that is read but not there.

  Numbers are integers: the numbers of this program are Unix times and status codes, far
  inside the range where a double is exact. Strings are lists of bytes (UTF-8).
\<close>

datatype jsval =
    JUndefined
  | JNull
  | JBool bool
  | JNum int
  | JStr string
  | JArr "jsval list"
  | JObj "(string \<times> jsval) list"

text \<open>
  What the program can throw: \<^verbatim>\<open>new Error(message)\<close> in \<^verbatim>\<open>TursoClient.request\<close>, and
  the built-in errors of the language and of the platform calls (a property read on
  \<^verbatim>\<open>null\<close> or \<^verbatim>\<open>undefined\<close>, a call of something that is not a function, an invalid URL and
  a network failure are a \<open>TypeError\<close>; \<^verbatim>\<open>toISOString\<close> of an invalid date is a
  \<open>RangeError\<close>; a body that is not JSON is a \<open>SyntaxError\<close>).
\<close>

datatype error = Error string | TypeError | RangeError | SyntaxError

definition thenE :: "error + 'a \<Rightarrow> ('a \<Rightarrow> error + 'b) \<Rightarrow> error + 'b" where
  "thenE r f = (case r of Inl e \<Rightarrow> Inl e | Inr v \<Rightarrow> f v)"

text \<open>
  \<^verbatim>\<open>v.k\<close> for the property names this program reads (none of them is an index,
  \<^verbatim>\<open>length\<close> or a member of a prototype): it throws on \<^verbatim>\<open>null\<close> and \<^verbatim>\<open>undefined\<close>, finds
  the property of an object, and is \<^verbatim>\<open>undefined\<close> on anything else.
\<close>

fun field_value :: "jsval \<Rightarrow> string \<Rightarrow> jsval" where
  "field_value (JObj kvs) k = (case map_of kvs k of None \<Rightarrow> JUndefined | Some v \<Rightarrow> v)"
| "field_value v k = JUndefined"

definition get_field :: "jsval \<Rightarrow> string \<Rightarrow> error + jsval" where
  "get_field v k =
     (if v = JUndefined \<or> v = JNull then Inl TypeError else Inr (field_value v k))"

text \<open>\<^verbatim>\<open>v ?? d\<close>\<close>

definition nullish :: "jsval \<Rightarrow> jsval \<Rightarrow> jsval" where
  "nullish v d = (if v = JUndefined \<or> v = JNull then d else v)"

text \<open>The truth value of \<^verbatim>\<open>v\<close> in a condition.\<close>

fun truthy :: "jsval \<Rightarrow> bool" where
  "truthy JUndefined = False"
| "truthy JNull = False"
| "truthy (JBool b) = b"
| "truthy (JNum n) = (n \<noteq> 0)"
| "truthy (JStr s) = (s \<noteq> [])"
| "truthy (JArr xs) = True"
| "truthy (JObj kvs) = True"

text \<open>
  \<^verbatim>\<open>v !== n\<close> and \<^verbatim>\<open>v > n\<close> for a number \<open>n\<close>. Strict inequality holds for every value that
  is not that number. The source types the left operand of \<^verbatim>\<open>>\<close> as a number, and two
  numbers are compared as numbers; an operand of another type would be converted first,
  which is not modelled: the comparison is false there, as it is for \<^verbatim>\<open>undefined\<close>.
\<close>

definition strict_neq_number :: "jsval \<Rightarrow> int \<Rightarrow> bool" where
  "strict_neq_number v n = (v \<noteq> JNum n)"

fun greater_number :: "jsval \<Rightarrow> int \<Rightarrow> bool" where
  "greater_number (JNum a) n = (n < a)"
| "greater_number v n = False"

section \<open>Strings\<close>

definition digit_char :: "nat \<Rightarrow> char" where
  "digit_char d = ''0123456789'' ! d"

text \<open>A number in a template literal: decimal, no leading zero.\<close>

fun show_nat :: "nat \<Rightarrow> string" where
  "show_nat n =
     (if n < 10 then [digit_char n] else show_nat (n div 10) @ [digit_char (n mod 10)])"

declare show_nat.simps [simp del]

text \<open>A number in JSON text (one below \<^verbatim>\<open>1e21\<close> in size, which is written in full).\<close>

definition show_int :: "int \<Rightarrow> string" where
  "show_int i = (if i < 0 then ''-'' @ show_nat (nat (- i)) else show_nat (nat i))"

definition intercalate :: "string \<Rightarrow> string list \<Rightarrow> string" where
  "intercalate sep xs =
     concat (case xs of [] \<Rightarrow> [] | y # ys \<Rightarrow> y # map (\<lambda>z. sep @ z) ys)"

definition hex_lower :: "nat \<Rightarrow> char" where
  "hex_lower d = ''0123456789abcdef'' ! d"

definition hex_upper :: "nat \<Rightarrow> char" where
  "hex_upper d = ''0123456789ABCDEF'' ! d"

subsection \<open>\<^verbatim>\<open>JSON.stringify\<close>\<close>

definition escape_char :: "char \<Rightarrow> string" where
  "escape_char c =
     (if c = CHR 0x22 then [CHR 0x5C, CHR 0x22]
      else if c = CHR 0x5C then [CHR 0x5C, CHR 0x5C]
      else if c = CHR 0x08 then [CHR 0x5C, CHR ''b'']
      else if c = CHR 0x0C then [CHR 0x5C, CHR ''f'']
      else if c = CHR 0x0A then [CHR 0x5C, CHR ''n'']
      else if c = CHR 0x0D then [CHR 0x5C, CHR ''r'']
      else if c = CHR 0x09 then [CHR 0x5C, CHR ''t'']
      else if (of_char c :: nat) < 32
        then [CHR 0x5C, CHR ''u'', CHR ''0'', CHR ''0'',
              hex_lower (of_char c div 16), hex_lower (of_char c mod 16)]
      else [c])"

definition quote :: "string \<Rightarrow> string" where
  "quote s = [CHR 0x22] @ concat (map escape_char s) @ [CHR 0x22]"

text \<open>
  The result is \<open>None\<close> where \<^verbatim>\<open>JSON.stringify\<close> returns \<^verbatim>\<open>undefined\<close>. An array writes
  \<^verbatim>\<open>null\<close> for an undefined element; an object leaves a property out whose value is
  undefined.
\<close>

fun JSON_stringify :: "jsval \<Rightarrow> string option"
and stringify_elements :: "jsval list \<Rightarrow> string list"
and stringify_properties :: "(string \<times> jsval) list \<Rightarrow> string list"
where
  "JSON_stringify JUndefined = None"
| "JSON_stringify JNull = Some ''null''"
| "JSON_stringify (JBool b) = Some (if b then ''true'' else ''false'')"
| "JSON_stringify (JNum n) = Some (show_int n)"
| "JSON_stringify (JStr s) = Some (quote s)"
| "JSON_stringify (JArr xs) = Some (''['' @ intercalate '','' (stringify_elements xs) @ '']'')"
| "JSON_stringify (JObj kvs) =
     Some (''{'' @ intercalate '','' (stringify_properties kvs) @ ''}'')"
| "stringify_elements [] = []"
| "stringify_elements (x # xs) =
     (case JSON_stringify x of None \<Rightarrow> ''null'' | Some s \<Rightarrow> s) # stringify_elements xs"
| "stringify_properties [] = []"
| "stringify_properties ((k, v) # kvs) =
     (case JSON_stringify v of
        None \<Rightarrow> stringify_properties kvs
      | Some s \<Rightarrow> (quote k @ '':'' @ s) # stringify_properties kvs)"

subsection \<open>\<^verbatim>\<open>URLSearchParams\<close>\<close>

text \<open>
  The list of name-value pairs of the object. \<^verbatim>\<open>set\<close> replaces the value of the first
  pair of that name and removes the others, or appends a pair. In a template literal the
  object is written by its \<^verbatim>\<open>toString\<close>: the pairs as \<^verbatim>\<open>name=value\<close> joined by \<^verbatim>\<open>&\<close>, each
  byte percent-encoded unless it is a letter, a digit or one of \<^verbatim>\<open>*-._\<close>, a space as
  \<^verbatim>\<open>+\<close>.
\<close>

type_synonym URLSearchParams = "(string \<times> string) list"

fun URLSearchParams_set :: "URLSearchParams \<Rightarrow> string \<Rightarrow> string \<Rightarrow> URLSearchParams" where
  "URLSearchParams_set [] k v = [(k, v)]"
| "URLSearchParams_set ((k', v') # ps) k v =
     (if k' = k then (k, v) # filter (\<lambda>p. fst p \<noteq> k) ps
      else (k', v') # URLSearchParams_set ps k v)"

definition unreserved :: "char \<Rightarrow> bool" where
  "unreserved c =
     (c \<in> set (''abcdefghijklmnopqrstuvwxyz'' @ ''ABCDEFGHIJKLMNOPQRSTUVWXYZ''
               @ ''0123456789'' @ ''*-._''))"

definition urlencode_char :: "char \<Rightarrow> string" where
  "urlencode_char c =
     (if c = CHR '' '' then ''+''
      else if unreserved c then [c]
      else [CHR ''%'', hex_upper (of_char c div 16), hex_upper (of_char c mod 16)])"

definition urlencode :: "string \<Rightarrow> string" where
  "urlencode s = concat (map urlencode_char s)"

definition URLSearchParams_toString :: "URLSearchParams \<Rightarrow> string" where
  "URLSearchParams_toString ps =
     intercalate ''&'' (map (\<lambda>(k, v). urlencode k @ ''='' @ urlencode v) ps)"

section \<open>Configuration and the transport\<close>

text \<open>
  An optional property of an object the caller writes: not there, there with the value
  \<^verbatim>\<open>undefined\<close>, or there with a value. Reading it gives \<^verbatim>\<open>undefined\<close> in the first two
  cases; an object spread tells them apart.
\<close>

datatype 'a optional = Absent | Undefined | Present 'a

fun read_optional :: "'a optional \<Rightarrow> 'a option" where
  "read_optional Absent = None"
| "read_optional Undefined = None"
| "read_optional (Present v) = Some v"

text \<open>
  \<^verbatim>\<open>interface TursoConfig { token: string; org?: string; baseUrl?: string }\<close>.
  Nothing in the program tells an absent \<open>org\<close> from an undefined one, so it is an
  \<open>option\<close>; the spread in the constructor does for \<open>baseUrl\<close>.
\<close>

record TursoConfig =
  token :: string
  org :: "string option"
  baseUrl :: "string optional"

text \<open>An optional string in a condition, and in a template literal.\<close>

fun truthy_string :: "string option \<Rightarrow> bool" where
  "truthy_string None = False"
| "truthy_string (Some s) = (s \<noteq> [])"

fun template :: "string option \<Rightarrow> string" where
  "template None = ''undefined''"
| "template (Some s) = s"

text \<open>
  \<^verbatim>\<open>RequestInit\<close>, with the three properties the program sets. The headers are a plain
  object: its properties in the order they were added.
\<close>

record RequestInit =
  init_method :: "string option"
  init_headers :: "(string \<times> string) list option"
  init_body :: "string option"

definition empty_init :: RequestInit where
  "empty_init = \<lparr>init_method = None, init_headers = None, init_body = None\<rparr>"

text \<open>
  Writing a property in an object literal, after a spread: a property that is already
  there keeps its place and takes the new value.
\<close>

fun set_property :: "(string \<times> 'v) list \<Rightarrow> string \<Rightarrow> 'v \<Rightarrow> (string \<times> 'v) list" where
  "set_property [] k v = [(k, v)]"
| "set_property ((k', v') # kvs) k v =
     (if k' = k then (k, v) # kvs else (k', v') # set_property kvs k v)"

text \<open>
  \<^verbatim>\<open>new URL(url, base)\<close> is kept as the pair of its arguments: resolving one against the
  other is the platform's work. One evaluation of
  \<^verbatim>\<open>fetch(new URL(url, base), init)\<close> is a \<open>fetch_call\<close>.
\<close>

datatype URL = new_URL (url_input: string) (url_base: "string option")

record fetch_call =
  resource :: URL
  init :: RequestInit

text \<open>
  A response, with what the program reads of it: the status, and the outcome of
  \<^verbatim>\<open>response.json()\<close> (\<open>None\<close> when the body is not JSON and the call rejects with a
  \<open>SyntaxError\<close>). \<^verbatim>\<open>response.ok\<close> is, by the Fetch standard, the status being 200 to 299.
\<close>

record Response =
  status :: nat
  json :: "jsval option"

definition ok :: "Response \<Rightarrow> bool" where
  "ok response = (200 \<le> status response \<and> status response \<le> 299)"

text \<open>
  The world outside the program: what a fetch call answers (\<open>None\<close> when
  \<^verbatim>\<open>new URL\<close> throws or \<^verbatim>\<open>fetch\<close> rejects, a \<open>TypeError\<close> in both cases), and the clock
  \<^verbatim>\<open>Date.now()\<close> in milliseconds.
\<close>

record env =
  fetch :: "fetch_call \<Rightarrow> Response option"
  Date_now :: int

text \<open>
  An asynchronous method: the value it resolves with or the error it rejects with, and
  the fetch calls it evaluated, in order.
\<close>

type_synonym 'a promise = "(error + 'a) \<times> fetch_call list"

text \<open>The code after an \<^verbatim>\<open>await\<close>, which makes no call of its own.\<close>

definition and_then :: "'a promise \<Rightarrow> ('a \<Rightarrow> error + 'b) \<Rightarrow> 'b promise" where
  "and_then p f = (thenE (fst p) f, snd p)"

section \<open>\<^verbatim>\<open>TursoClient.request\<close>\<close>

definition request :: "env \<Rightarrow> string \<Rightarrow> TursoConfig \<Rightarrow> RequestInit option \<Rightarrow> jsval promise" where
  "request e url config options_arg =
     (let options = (case options_arg of None \<Rightarrow> empty_init | Some given \<Rightarrow> given);
          call = \<lparr>resource = new_URL url (read_optional (baseUrl config)),
                  init = \<lparr>init_method = init_method options,
                          init_headers = Some
                            (set_property
                               (set_property
                                  (case init_headers options of None \<Rightarrow> [] | Some hs \<Rightarrow> hs)
                                  ''Authorization'' (''Bearer '' @ token config))
                               ''User-Agent'' ''JS SDK''),
                          init_body = init_body options\<rparr>\<rparr>
      in ((case fetch e call of
             None \<Rightarrow> Inl TypeError
           | Some response \<Rightarrow>
               if \<not> ok response
               then Inl (Error (''Something went wrong! Status '' @ show_nat (status response)))
               else (case json response of None \<Rightarrow> Inl SyntaxError | Some v \<Rightarrow> Inr v)),
          [call]))"

section \<open>\<^verbatim>\<open>ApiTokenClient\<close>\<close>

definition ApiTokenClient_list :: "env \<Rightarrow> TursoConfig \<Rightarrow> jsval promise" where
  "ApiTokenClient_list e config =
     and_then (request e ''auth/api-tokens'' config None)
       (\<lambda>response. thenE (get_field response ''tokens'')
          (\<lambda>tokens. Inr (nullish tokens (JArr []))))"

definition ApiTokenClient_create :: "env \<Rightarrow> TursoConfig \<Rightarrow> string \<Rightarrow> jsval promise" where
  "ApiTokenClient_create e config name =
     and_then
       (request e (''auth/api-tokens/'' @ name) config
          (Some \<lparr>init_method = Some ''POST'',
                 init_headers = Some [(''content-type'', ''application/json'')],
                 init_body = None\<rparr>))
       (\<lambda>response. Inr response)"

definition ApiTokenClient_revoke :: "env \<Rightarrow> TursoConfig \<Rightarrow> string \<Rightarrow> jsval promise" where
  "ApiTokenClient_revoke e config name =
     and_then
       (request e (''auth/api-tokens/'' @ name) config
          (Some \<lparr>init_method = Some ''DELETE'', init_headers = None, init_body = None\<rparr>))
       (\<lambda>response. Inr response)"

definition ApiTokenClient_validate :: "env \<Rightarrow> TursoConfig \<Rightarrow> string \<Rightarrow> jsval promise" where
  "ApiTokenClient_validate e config tok =
     and_then
       (request e ''auth/api-tokens/validate'' config
          (Some \<lparr>init_method = None,
                 init_headers = Some [(''Authorization'', ''Bearer '' @ tok)],
                 init_body = None\<rparr>))
       (\<lambda>response.
          let currentTime = Date_now e div 1000
          in thenE (get_field response ''exp'')
               (\<lambda>exp. Inr (JObj
                  [(''valid'', JBool (strict_neq_number exp (- 1) \<and> greater_number exp currentTime)),
                   (''expiry'', exp)])))"

section \<open>\<^verbatim>\<open>OrganizationClient\<close>\<close>

definition OrganizationClient_list :: "env \<Rightarrow> TursoConfig \<Rightarrow> jsval promise" where
  "OrganizationClient_list e config =
     and_then (request e ''organizations'' config None)
       (\<lambda>response. thenE (get_field response ''organizations'')
          (\<lambda>organizations. Inr (nullish organizations (JArr []))))"

definition OrganizationClient_members :: "env \<Rightarrow> TursoConfig \<Rightarrow> jsval promise" where
  "OrganizationClient_members e config =
     and_then (request e (''organisations/'' @ template (org config) @ ''/members'') config None)
       (\<lambda>response. thenE (get_field response ''members'')
          (\<lambda>members. Inr (nullish members (JArr []))))"

section \<open>\<^verbatim>\<open>LocationClient\<close>\<close>

text \<open>
  \<^verbatim>\<open>Object.entries(v)\<close>: the properties of an object, the elements of an array and the
  characters of a string (an ASCII one: a byte is a character) under their indices,
  nothing for a number or a boolean.
\<close>

fun Object_entries :: "jsval \<Rightarrow> error + (string \<times> jsval) list" where
  "Object_entries JUndefined = Inl TypeError"
| "Object_entries JNull = Inl TypeError"
| "Object_entries (JObj kvs) = Inr kvs"
| "Object_entries (JArr xs) = Inr (zip (map show_nat [0..<length xs]) xs)"
| "Object_entries (JStr s) = Inr (zip (map show_nat [0..<length s]) (map (\<lambda>c. JStr [c]) s))"
| "Object_entries v = Inr []"

definition LocationClient_list :: "env \<Rightarrow> TursoConfig \<Rightarrow> jsval promise" where
  "LocationClient_list e config =
     and_then (request e ''locations'' config None)
       (\<lambda>response. thenE (get_field response ''locations'')
          (\<lambda>locations.
             if \<not> truthy locations then Inr (JArr [])
             else thenE (Object_entries locations)
               (\<lambda>entries. Inr (JArr (map
                  (\<lambda>(code, description).
                     JObj [(''code'', JStr code), (''description'', description)])
                  entries)))))"

section \<open>\<^verbatim>\<open>GroupClient\<close>\<close>

definition GroupClient_list :: "env \<Rightarrow> TursoConfig \<Rightarrow> jsval promise" where
  "GroupClient_list e config =
     and_then
       (request e
          (if truthy_string (org config)
           then ''organizations/'' @ template (org config) @ ''/groups''
           else ''groups'')
          config None)
       (\<lambda>response. thenE (get_field response ''groups'')
          (\<lambda>groups. Inr (nullish groups (JArr []))))"

definition GroupClient_get :: "env \<Rightarrow> TursoConfig \<Rightarrow> string \<Rightarrow> jsval promise" where
  "GroupClient_get e config name =
     and_then
       (request e
          (if truthy_string (org config)
           then ''organizations/'' @ template (org config) @ ''/groups/'' @ name
           else ''groups/'' @ name)
          config None)
       (\<lambda>response. get_field response ''group'')"

text \<open>The argument \<open>data\<close> is the caller's object, written out as it is.\<close>

definition GroupClient_create :: "env \<Rightarrow> TursoConfig \<Rightarrow> jsval \<Rightarrow> jsval promise" where
  "GroupClient_create e config data =
     and_then
       (request e
          (if truthy_string (org config)
           then ''organizations/'' @ template (org config) @ ''/groups''
           else ''groups'')
          config
          (Some \<lparr>init_method = Some ''POST'',
                 init_headers = Some [(''content-type'', ''application/json'')],
                 init_body = JSON_stringify data\<rparr>))
       (\<lambda>response. get_field response ''group'')"

definition GroupClient_delete :: "env \<Rightarrow> TursoConfig \<Rightarrow> string \<Rightarrow> jsval promise" where
  "GroupClient_delete e config name =
     and_then
       (request e
          (if truthy_string (org config)
           then ''organizations/'' @ template (org config) @ ''/groups/'' @ name
           else ''groups/'' @ name)
          config
          (Some \<lparr>init_method = Some ''DELETE'', init_headers = None, init_body = None\<rparr>))
       (\<lambda>response. get_field response ''group'')"

definition GroupClient_addLocation ::
  "env \<Rightarrow> TursoConfig \<Rightarrow> string \<Rightarrow> string \<Rightarrow> jsval promise" where
  "GroupClient_addLocation e config groupName location =
     (let endpoint =
        (if truthy_string (org config)
         then ''organizations/'' @ template (org config) @ ''/groups/'' @ groupName
                @ ''/locations/'' @ location
         else ''groups/'' @ groupName @ ''/locations/'' @ location)
      in and_then
           (request e endpoint config
              (Some \<lparr>init_method = Some ''POST'', init_headers = None, init_body = None\<rparr>))
           (\<lambda>response. get_field response ''group''))"

definition GroupClient_removeLocation ::
  "env \<Rightarrow> TursoConfig \<Rightarrow> string \<Rightarrow> string \<Rightarrow> jsval promise" where
  "GroupClient_removeLocation e config groupName location =
     (let endpoint =
        (if truthy_string (org config)
         then ''organizations/'' @ template (org config) @ ''/groups/'' @ groupName
                @ ''/locations/'' @ location
         else ''groups/'' @ groupName @ ''/locations/'' @ location)
      in and_then
           (request e endpoint config
              (Some \<lparr>init_method = Some ''DELETE'', init_headers = None, init_body = None\<rparr>))
           (\<lambda>response. get_field response ''group''))"

section \<open>\<^verbatim>\<open>DatabaseClient\<close>\<close>

definition formatResponse :: "jsval \<Rightarrow> error + jsval" where
  "formatResponse db =
     thenE (get_field db ''Name'') (\<lambda>Name.
     thenE (get_field db ''DbId'') (\<lambda>DbId.
     thenE (get_field db ''Hostname'') (\<lambda>Hostname.
     thenE (get_field db ''regions'') (\<lambda>regions.
     thenE (get_field db ''primaryRegion'') (\<lambda>primaryRegion.
     thenE (get_field db ''type'') (\<lambda>type.
     thenE (get_field db ''version'') (\<lambda>version.
     thenE (get_field db ''group'') (\<lambda>group.
       Inr (JObj
         [(''name'', Name),
          (''id'', DbId),
          (''hostname'', Hostname),
          (''regions'', regions),
          (''primaryRegion'', primaryRegion),
          (''type'', type),
          (''version'', version),
          (''group'', group)])))))))))"

text \<open>
  \<^verbatim>\<open>xs.map(f)\<close>, where \<open>f\<close> may throw: only an array has the method, and the first
  element on which \<open>f\<close> throws ends the call.
\<close>

fun map_throwing :: "('a \<Rightarrow> error + 'b) \<Rightarrow> 'a list \<Rightarrow> error + 'b list" where
  "map_throwing f [] = Inr []"
| "map_throwing f (x # xs) =
     thenE (f x) (\<lambda>y. thenE (map_throwing f xs) (\<lambda>ys. Inr (y # ys)))"

fun array_map :: "jsval \<Rightarrow> (jsval \<Rightarrow> error + jsval) \<Rightarrow> error + jsval" where
  "array_map (JArr xs) f = thenE (map_throwing f xs) (\<lambda>ys. Inr (JArr ys))"
| "array_map v f = Inl TypeError"

definition DatabaseClient_list :: "env \<Rightarrow> TursoConfig \<Rightarrow> jsval promise" where
  "DatabaseClient_list e config =
     and_then
       (request e
          (if truthy_string (org config)
           then ''organizations/'' @ template (org config) @ ''/databases''
           else ''databases'')
          config None)
       (\<lambda>response. thenE (get_field response ''databases'')
          (\<lambda>databases. array_map (nullish databases (JArr [])) formatResponse))"

definition DatabaseClient_get :: "env \<Rightarrow> TursoConfig \<Rightarrow> string \<Rightarrow> jsval promise" where
  "DatabaseClient_get e config name =
     and_then
       (request e
          (if truthy_string (org config)
           then ''organizations/'' @ template (org config) @ ''/databases/'' @ name
           else ''databases/'' @ name)
          config None)
       (\<lambda>response. thenE (get_field response ''database'') formatResponse)"

text \<open>
  The options of \<^verbatim>\<open>create\<close>, \<^verbatim>\<open>{ image: "latest" | "canary"; group?: string }\<close>, are the
  caller's object as it is: its own properties in the order the caller wrote them, each
  key once, a property that is there with the value \<^verbatim>\<open>undefined\<close> included. The spread
  \<^verbatim>\<open>{ name, ...options }\<close> writes them one after the other into the object that has
  \<open>name\<close>; nothing is spread when the options are omitted.
\<close>

type_synonym create_options = "(string \<times> jsval) list"

definition spread :: "(string \<times> 'v) list \<Rightarrow> (string \<times> 'v) list \<Rightarrow> (string \<times> 'v) list" where
  "spread obj props = foldl (\<lambda>acc (k, v). set_property acc k v) obj props"

definition DatabaseClient_create ::
  "env \<Rightarrow> TursoConfig \<Rightarrow> string \<Rightarrow> create_options option \<Rightarrow> jsval promise" where
  "DatabaseClient_create e config name options =
     and_then
       (request e
          (if truthy_string (org config)
           then ''organizations/'' @ template (org config) @ ''/databases/'' @ name
           else ''databases/'' @ name)
          config
          (Some \<lparr>init_method = Some ''POST'',
                 init_headers = Some [(''content-type'', ''application/json'')],
                 init_body = JSON_stringify (JObj
                   (spread [(''name'', JStr name)]
                      (case options of None \<Rightarrow> [] | Some given \<Rightarrow> given)))\<rparr>))
       (\<lambda>response. get_field response ''database'')"

definition DatabaseClient_update :: "env \<Rightarrow> TursoConfig \<Rightarrow> string \<Rightarrow> jsval promise" where
  "DatabaseClient_update e config name =
     request e
       (if truthy_string (org config)
        then ''organizations/'' @ template (org config) @ ''/databases/'' @ name @ ''/update''
        else ''databases/'' @ name)
       config
       (Some \<lparr>init_method = Some ''POST'', init_headers = None, init_body = None\<rparr>)"

definition DatabaseClient_delete :: "env \<Rightarrow> TursoConfig \<Rightarrow> string \<Rightarrow> jsval promise" where
  "DatabaseClient_delete e config name =
     and_then
       (request e
          (if truthy_string (org config)
           then ''organizations/'' @ template (org config) @ ''/databases/'' @ name
           else ''databases/'' @ name)
          config
          (Some \<lparr>init_method = Some ''DELETE'', init_headers = None, init_body = None\<rparr>))
       (\<lambda>response. Inr response)"

text \<open>
  The options of \<^verbatim>\<open>createToken\<close>; \<open>None\<close> is a property that is not there or undefined,
  which \<^verbatim>\<open>options?.expiration\<close> reads alike. The statement
  \<^verbatim>\<open>if (options?.k) queryParams.set("k", options.k)\<close> is \<open>set_if_truthy\<close>.
\<close>

record createToken_options =
  options_expiration :: "string option"
  options_authorization :: "string option"

definition set_if_truthy :: "URLSearchParams \<Rightarrow> string \<Rightarrow> string option \<Rightarrow> URLSearchParams" where
  "set_if_truthy queryParams k v =
     (case v of
        None \<Rightarrow> queryParams
      | Some s \<Rightarrow> if truthy_string (Some s) then URLSearchParams_set queryParams k s
                  else queryParams)"

definition DatabaseClient_createToken ::
  "env \<Rightarrow> TursoConfig \<Rightarrow> string \<Rightarrow> createToken_options option \<Rightarrow> jsval promise" where
  "DatabaseClient_createToken e config dbName options =
     (let url =
        (if truthy_string (org config)
         then ''organizations/'' @ template (org config) @ ''/databases/'' @ dbName
                @ ''/auth/tokens''
         else ''databases/'' @ dbName @ ''/auth/tokens'');
          queryParams = [];
          queryParams = set_if_truthy queryParams ''expiration''
            (case options of None \<Rightarrow> None | Some given \<Rightarrow> options_expiration given);
          queryParams = set_if_truthy queryParams ''authorization''
            (case options of None \<Rightarrow> None | Some given \<Rightarrow> options_authorization given)
      in and_then
           (request e (url @ ''?'' @ URLSearchParams_toString queryParams) config
              (Some \<lparr>init_method = Some ''POST'', init_headers = None, init_body = None\<rparr>))
           (\<lambda>response. Inr response))"

definition DatabaseClient_rotateTokens :: "env \<Rightarrow> TursoConfig \<Rightarrow> string \<Rightarrow> jsval promise" where
  "DatabaseClient_rotateTokens e config dbName =
     request e
       (if truthy_string (org config)
        then ''organizations/'' @ template (org config) @ ''/databases/'' @ dbName
               @ ''/auth/rotate''
        else ''databases/'' @ dbName @ ''/auth/rotate'')
       config
       (Some \<lparr>init_method = Some ''POST'', init_headers = None, init_body = None\<rparr>)"

text \<open>
  A \<^verbatim>\<open>Date\<close> object is kept as what its \<^verbatim>\<open>toISOString()\<close> returns; \<open>None\<close> is an invalid
  date, where the method throws.
\<close>

datatype Date = Date "string option"

fun toISOString :: "Date \<Rightarrow> error + string" where
  "toISOString (Date None) = Inl RangeError"
| "toISOString (Date (Some s)) = Inr s"

datatype date_or_string = DateValue Date | StringValue string

fun truthy_date :: "date_or_string \<Rightarrow> bool" where
  "truthy_date (DateValue d) = True"
| "truthy_date (StringValue s) = (s \<noteq> [])"

fun formatDateParameter :: "date_or_string \<Rightarrow> error + string" where
  "formatDateParameter (DateValue d) = toISOString d"
| "formatDateParameter (StringValue s) = Inr s"

record usage_options =
  options_from :: "date_or_string option"
  options_to :: "date_or_string option"

text \<open>
  \<^verbatim>\<open>if (options?.k) queryParams.set("k", this.formatDateParameter(options.k))\<close>, which may
  throw.
\<close>

definition set_date_if_truthy ::
  "URLSearchParams \<Rightarrow> string \<Rightarrow> date_or_string option \<Rightarrow> error + URLSearchParams" where
  "set_date_if_truthy queryParams k v =
     (case v of
        None \<Rightarrow> Inr queryParams
      | Some d \<Rightarrow>
          if truthy_date d
          then thenE (formatDateParameter d) (\<lambda>s. Inr (URLSearchParams_set queryParams k s))
          else Inr queryParams)"

text \<open>Code that may throw before the method makes its request.\<close>

definition before :: "error + 'a \<Rightarrow> ('a \<Rightarrow> 'b promise) \<Rightarrow> 'b promise" where
  "before r f = (case r of Inl err \<Rightarrow> (Inl err, []) | Inr v \<Rightarrow> f v)"

definition DatabaseClient_usage ::
  "env \<Rightarrow> TursoConfig \<Rightarrow> string \<Rightarrow> usage_options option \<Rightarrow> jsval promise" where
  "DatabaseClient_usage e config dbName options =
     (let url =
        (if truthy_string (org config)
         then ''organizations/'' @ template (org config) @ ''/databases/'' @ dbName @ ''/usage''
         else ''databases/'' @ dbName @ ''/usage'');
          queryParams = []
      in before (set_date_if_truthy queryParams ''from''
                   (case options of None \<Rightarrow> None | Some given \<Rightarrow> options_from given))
           (\<lambda>queryParams.
        before (set_date_if_truthy queryParams ''to''
                   (case options of None \<Rightarrow> None | Some given \<Rightarrow> options_to given))
           (\<lambda>queryParams.
        and_then (request e (url @ ''?'' @ URLSearchParams_toString queryParams) config None)
          (\<lambda>response. get_field response ''database''))))"

section \<open>\<^verbatim>\<open>TursoClient\<close>\<close>

text \<open>
  A sub-client is an object with one private field, the configuration; the constructor
  gives all five the configuration it stored. In \<^verbatim>\<open>{ baseUrl: "...", ...config }\<close> a
  \<open>baseUrl\<close> property of the argument, whatever its value, replaces the default.
\<close>

record TursoClient =
  config :: TursoConfig
  apiTokens :: TursoConfig
  organizations :: TursoConfig
  locations :: TursoConfig
  groups :: TursoConfig
  databases :: TursoConfig

definition TursoClient_constructor :: "TursoConfig \<Rightarrow> TursoClient" where
  "TursoClient_constructor config_arg =
     (let this_config =
        \<lparr>token = token config_arg,
         org = org config_arg,
         baseUrl = (case baseUrl config_arg of
                      Absent \<Rightarrow> Present ''https://api.turso.tech/v1''
                    | given \<Rightarrow> given)\<rparr>
      in \<lparr>config = this_config,
          apiTokens = this_config,
          organizations = this_config,
          locations = this_config,
          groups = this_config,
          databases = this_config\<rparr>)"

definition createClient :: "TursoConfig \<Rightarrow> TursoClient" where
  "createClient config_arg = TursoClient_constructor config_arg"

text \<open>
  The public surface: a call of one method of one of the five sub-clients of a client,
  with its arguments.
\<close>

datatype invocation =
    apiTokens_list
  | apiTokens_create string
  | apiTokens_revoke string
  | apiTokens_validate string
  | organizations_list
  | organizations_members
  | locations_list
  | groups_list
  | groups_get string
  | groups_create jsval
  | groups_delete string
  | groups_addLocation string string
  | groups_removeLocation string string
  | databases_list
  | databases_get string
  | databases_create string "create_options option"
  | databases_update string
  | databases_delete string
  | databases_createToken string "createToken_options option"
  | databases_rotateTokens string
  | databases_usage string "usage_options option"

fun invoke :: "env \<Rightarrow> TursoClient \<Rightarrow> invocation \<Rightarrow> jsval promise" where
  "invoke e c apiTokens_list = ApiTokenClient_list e (apiTokens c)"
| "invoke e c (apiTokens_create name) = ApiTokenClient_create e (apiTokens c) name"
| "invoke e c (apiTokens_revoke name) = ApiTokenClient_revoke e (apiTokens c) name"
| "invoke e c (apiTokens_validate tok) = ApiTokenClient_validate e (apiTokens c) tok"
| "invoke e c organizations_list = OrganizationClient_list e (organizations c)"
| "invoke e c organizations_members = OrganizationClient_members e (organizations c)"
| "invoke e c locations_list = LocationClient_list e (locations c)"
| "invoke e c groups_list = GroupClient_list e (groups c)"
| "invoke e c (groups_get name) = GroupClient_get e (groups c) name"
| "invoke e c (groups_create data) = GroupClient_create e (groups c) data"
| "invoke e c (groups_delete name) = GroupClient_delete e (groups c) name"
| "invoke e c (groups_addLocation groupName location) =
     GroupClient_addLocation e (groups c) groupName location"
| "invoke e c (groups_removeLocation groupName location) =
     GroupClient_removeLocation e (groups c) groupName location"
| "invoke e c databases_list = DatabaseClient_list e (databases c)"
| "invoke e c (databases_get name) = DatabaseClient_get e (databases c) name"
| "invoke e c (databases_create name options) =
     DatabaseClient_create e (databases c) name options"
| "invoke e c (databases_update name) = DatabaseClient_update e (databases c) name"
| "invoke e c (databases_delete name) = DatabaseClient_delete e (databases c) name"
| "invoke e c (databases_createToken dbName options) =
     DatabaseClient_createToken e (databases c) dbName options"
| "invoke e c (databases_rotateTokens dbName) =
     DatabaseClient_rotateTokens e (databases c) dbName"
| "invoke e c (databases_usage dbName options) =
     DatabaseClient_usage e (databases c) dbName options"

section \<open>Vocabulary of the properties\<close>

text \<open>
  What a method requested: the first argument of \<^verbatim>\<open>new URL\<close> (the path, with its query),
  and the body, of each of its fetch calls.
\<close>

definition requested_paths :: "'a promise \<Rightarrow> string list" where
  "requested_paths p = map (\<lambda>call. url_input (resource call)) (snd p)"

definition requested_bodies :: "'a promise \<Rightarrow> string option list" where
  "requested_bodies p = map (\<lambda>call. init_body (init call)) (snd p)"

text \<open>
  A path is org-scoped when it starts \<^verbatim>\<open>organizations/\<close>, and org-scoped for the
  organization \<open>s\<close> when it starts \<^verbatim>\<open>organizations/s/\<close>; a legacy path does not start
  \<^verbatim>\<open>organizations/\<close>. The prefix the paths of a configuration are expected to have:
  \<^verbatim>\<open>organizations/s/\<close> when \<open>org\<close> is the string \<open>s\<close>, not empty, and nothing otherwise.
\<close>

definition starts_with :: "string \<Rightarrow> string \<Rightarrow> bool" where
  "starts_with p s = (take (length p) s = p)"

fun org_prefix :: "string option \<Rightarrow> string" where
  "org_prefix None = []"
| "org_prefix (Some s) = (if s = [] then [] else ''organizations/'' @ s @ ''/'')"

text \<open>The methods of \<^verbatim>\<open>GroupClient\<close> and \<^verbatim>\<open>DatabaseClient\<close>.\<close>

fun group_or_database_call :: "invocation \<Rightarrow> bool" where
  "group_or_database_call apiTokens_list = False"
| "group_or_database_call (apiTokens_create name) = False"
| "group_or_database_call (apiTokens_revoke name) = False"
| "group_or_database_call (apiTokens_validate tok) = False"
| "group_or_database_call organizations_list = False"
| "group_or_database_call organizations_members = False"
| "group_or_database_call locations_list = False"
| "group_or_database_call m = True"

text \<open>
  The pairs a query string holds for an option: one pair when the option is provided and
  truthy (a string that is not empty, or a date, written by \<^verbatim>\<open>toISOString\<close>), none
  otherwise.
\<close>

fun query_pair :: "string \<Rightarrow> string option \<Rightarrow> (string \<times> string) list" where
  "query_pair k None = []"
| "query_pair k (Some s) = (if s = [] then [] else [(k, s)])"

fun date_pair :: "string \<Rightarrow> date_or_string option \<Rightarrow> (string \<times> string) list" where
  "date_pair k None = []"
| "date_pair k (Some (StringValue s)) = (if s = [] then [] else [(k, s)])"
| "date_pair k (Some (DateValue (Date None))) = []"
| "date_pair k (Some (DateValue (Date (Some s)))) = [(k, s)]"

section \<open>Properties\<close>

subsection \<open>Sequencing\<close>

lemma thenE_Inl [simp]: "thenE (Inl err) f = Inl err"
  by (simp add: thenE_def)

lemma thenE_Inr [simp]: "thenE (Inr v) f = f v"
  by (simp add: thenE_def)

lemma snd_and_then [simp]: "snd (and_then p f) = snd p"
  by (simp add: and_then_def)

lemma fst_and_then [simp]: "fst (and_then p f) = thenE (fst p) f"
  by (simp add: and_then_def)

lemma before_Inr [simp]: "before (Inr v) f = f v"
  by (simp add: before_def)

lemma requested_paths_request [simp]:
  "requested_paths (request e url cfg opts) = [url]"
  by (simp add: requested_paths_def request_def Let_def)

lemma requested_paths_and_then [simp]:
  "requested_paths (and_then p f) = requested_paths p"
  by (simp add: requested_paths_def)

lemma requested_paths_none [simp]: "requested_paths (r, []) = []"
  by (simp add: requested_paths_def)

subsection \<open>What \<^verbatim>\<open>usage\<close> does\<close>

lemma URLSearchParams_set_fresh:
  "k \<notin> fst ` set ps \<Longrightarrow> URLSearchParams_set ps k v = ps @ [(k, v)]"
  by (induction ps) auto

lemma date_pair_keys: "fst ` set (date_pair k v) \<subseteq> {k}"
  by (induction k v rule: date_pair.induct) simp_all

lemma set_date_if_truthy_invalid:
  "set_date_if_truthy q k (Some (DateValue (Date None))) = Inl RangeError"
  by (simp add: set_date_if_truthy_def)

lemma set_date_if_truthy_valid:
  assumes "v \<noteq> Some (DateValue (Date None))" and "k \<notin> fst ` set q"
  shows "set_date_if_truthy q k v = Inr (q @ date_pair k v)"
  using assms
  by (induction k v rule: date_pair.induct)
     (simp_all add: set_date_if_truthy_def URLSearchParams_set_fresh)

lemma usage_eq:
  "DatabaseClient_usage e cfg db opts =
     (let url = (if truthy_string (org cfg)
                 then ''organizations/'' @ template (org cfg) @ ''/databases/'' @ db @ ''/usage''
                 else ''databases/'' @ db @ ''/usage'');
          from_option = (case opts of None \<Rightarrow> None | Some given \<Rightarrow> options_from given);
          to_option = (case opts of None \<Rightarrow> None | Some given \<Rightarrow> options_to given)
      in if from_option = Some (DateValue (Date None)) \<or> to_option = Some (DateValue (Date None))
         then (Inl RangeError, [])
         else and_then
                (request e
                   (url @ ''?'' @ URLSearchParams_toString
                      (date_pair ''from'' from_option @ date_pair ''to'' to_option))
                   cfg None)
                (\<lambda>response. get_field response ''database''))"
proof -
  let ?f = "(case opts of None \<Rightarrow> None | Some given \<Rightarrow> options_from given)"
  let ?t = "(case opts of None \<Rightarrow> None | Some given \<Rightarrow> options_to given)"
  show ?thesis
  proof (cases "?f = Some (DateValue (Date None))")
    case True
    then show ?thesis
      by (simp add: DatabaseClient_usage_def Let_def set_date_if_truthy_invalid before_def)
  next
    case f: False
    then have 1: "set_date_if_truthy [] ''from'' ?f = Inr (date_pair ''from'' ?f)"
      by (simp add: set_date_if_truthy_valid)
    have fresh: "''to'' \<notin> fst ` set (date_pair ''from'' ?f)"
      using date_pair_keys [of "''from''" ?f] by auto
    show ?thesis
    proof (cases "?t = Some (DateValue (Date None))")
      case True
      then show ?thesis
        by (simp add: DatabaseClient_usage_def Let_def 1 set_date_if_truthy_invalid before_def)
    next
      case False
      with fresh have "set_date_if_truthy (date_pair ''from'' ?f) ''to'' ?t
          = Inr (date_pair ''from'' ?f @ date_pair ''to'' ?t)"
        by (simp add: set_date_if_truthy_valid)
      with f False show ?thesis
        by (simp add: DatabaseClient_usage_def Let_def 1)
    qed
  qed
qed

subsection \<open>A method is one request and code that throws no \<open>Error\<close>\<close>

lemma get_field_no_Error [simp]: "get_field v k \<noteq> Inl (Error msg)"
  by (simp add: get_field_def)

lemma thenE_no_Error:
  assumes "r \<noteq> Inl (Error msg)" and "\<And>v. f v \<noteq> Inl (Error msg)"
  shows "thenE r f \<noteq> Inl (Error msg)"
  using assms by (cases r) simp_all

lemma formatResponse_eq:
  "formatResponse db =
     (if db = JUndefined \<or> db = JNull then Inl TypeError
      else Inr (JObj
         [(''name'', field_value db ''Name''),
          (''id'', field_value db ''DbId''),
          (''hostname'', field_value db ''Hostname''),
          (''regions'', field_value db ''regions''),
          (''primaryRegion'', field_value db ''primaryRegion''),
          (''type'', field_value db ''type''),
          (''version'', field_value db ''version''),
          (''group'', field_value db ''group'')]))"
  by (simp add: formatResponse_def get_field_def)

lemma formatResponse_no_Error [simp]: "formatResponse db \<noteq> Inl (Error msg)"
  by (simp add: formatResponse_eq)

lemma map_throwing_no_Error:
  assumes "\<And>x. f x \<noteq> Inl (Error msg)"
  shows "map_throwing f xs \<noteq> Inl (Error msg)"
proof (induction xs)
  case Nil
  show ?case by simp
next
  case (Cons x xs)
  show ?case
  proof (cases "f x")
    case (Inl err)
    with assms [of x] show ?thesis by simp
  next
    case (Inr y)
    with Cons show ?thesis by (cases "map_throwing f xs") simp_all
  qed
qed

lemma array_map_no_Error:
  assumes "\<And>x. f x \<noteq> Inl (Error msg)"
  shows "array_map v f \<noteq> Inl (Error msg)"
proof (cases v)
  case (JArr xs)
  with map_throwing_no_Error [of f msg xs] assms show ?thesis
    by (cases "map_throwing f xs") simp_all
qed simp_all

lemma Object_entries_no_Error [simp]: "Object_entries v \<noteq> Inl (Error msg)"
  by (cases v) simp_all

lemma shapeI:
  assumes "\<And>v msg. f v \<noteq> Inl (Error msg)"
  shows "\<exists>url' cfg' opts' f'.
           and_then (request e url cfg opts) f = and_then (request e url' cfg' opts') f'
           \<and> (\<forall>v msg. f' v \<noteq> Inl (Error msg))"
  using assms by blast

lemma request_shape:
  "\<exists>url' cfg' opts' f'.
     request e url cfg opts = and_then (request e url' cfg' opts') f'
     \<and> (\<forall>v msg. f' v \<noteq> Inl (Error msg))"
proof -
  have "request e url cfg opts = and_then (request e url cfg opts) Inr"
    by (cases "fst (request e url cfg opts)") (simp_all add: prod_eq_iff)
  moreover have "\<forall>v msg. (Inr v :: error + jsval) \<noteq> Inl (Error msg)" by simp
  ultimately show ?thesis by blast
qed

lemma usage_shape:
  assumes "snd (DatabaseClient_usage e cfg db opts) = [call]"
  shows "\<exists>url' cfg' opts' f'.
     DatabaseClient_usage e cfg db opts = and_then (request e url' cfg' opts') f'
     \<and> (\<forall>v msg. f' v \<noteq> Inl (Error msg))"
proof -
  let ?url = "(if truthy_string (org cfg)
         then ''organizations/'' @ template (org cfg) @ ''/databases/'' @ db @ ''/usage''
         else ''databases/'' @ db @ ''/usage'')"
  let ?f = "(case opts of None \<Rightarrow> None | Some given \<Rightarrow> options_from given)"
  let ?t = "(case opts of None \<Rightarrow> None | Some given \<Rightarrow> options_to given)"
  from assms have
    "\<not> (?f = Some (DateValue (Date None)) \<or> ?t = Some (DateValue (Date None)))"
    by (auto simp add: usage_eq Let_def)
  then have sent: "DatabaseClient_usage e cfg db opts =
      and_then
        (request e
           (?url @ ''?'' @ URLSearchParams_toString (date_pair ''from'' ?f @ date_pair ''to'' ?t))
           cfg None)
        (\<lambda>response. get_field response ''database'')"
    by (simp add: usage_eq Let_def)
  show ?thesis unfolding sent by (rule shapeI) simp
qed

lemma invoke_shape:
  assumes "snd (invoke e c m) = [call]"
  shows "\<exists>url cfg opts f.
     invoke e c m = and_then (request e url cfg opts) f
     \<and> (\<forall>v msg. f v \<noteq> Inl (Error msg))"
proof (cases m)
  case (databases_usage db opts)
  with assms usage_shape show ?thesis by simp
next
  case (databases_update name)
  then show ?thesis by (simp add: DatabaseClient_update_def request_shape)
next
  case (databases_rotateTokens name)
  then show ?thesis by (simp add: DatabaseClient_rotateTokens_def request_shape)
next
  case apiTokens_list
  show ?thesis unfolding apiTokens_list invoke.simps ApiTokenClient_list_def
    by (rule shapeI) (simp add: thenE_no_Error)
next
  case (apiTokens_create name)
  show ?thesis unfolding apiTokens_create invoke.simps ApiTokenClient_create_def
    by (rule shapeI) simp
next
  case (apiTokens_revoke name)
  show ?thesis unfolding apiTokens_revoke invoke.simps ApiTokenClient_revoke_def
    by (rule shapeI) simp
next
  case (apiTokens_validate tok)
  show ?thesis unfolding apiTokens_validate invoke.simps ApiTokenClient_validate_def
    by (rule shapeI) (simp add: thenE_no_Error)
next
  case organizations_list
  show ?thesis unfolding organizations_list invoke.simps OrganizationClient_list_def
    by (rule shapeI) (simp add: thenE_no_Error)
next
  case organizations_members
  show ?thesis unfolding organizations_members invoke.simps OrganizationClient_members_def
    by (rule shapeI) (simp add: thenE_no_Error)
next
  case locations_list
  show ?thesis unfolding locations_list invoke.simps LocationClient_list_def
    by (rule shapeI) (simp add: thenE_no_Error)
next
  case groups_list
  show ?thesis unfolding groups_list invoke.simps GroupClient_list_def
    by (rule shapeI) (simp add: thenE_no_Error)
next
  case (groups_get name)
  show ?thesis unfolding groups_get invoke.simps GroupClient_get_def
    by (rule shapeI) simp
next
  case (groups_create data)
  show ?thesis unfolding groups_create invoke.simps GroupClient_create_def
    by (rule shapeI) simp
next
  case (groups_delete name)
  show ?thesis unfolding groups_delete invoke.simps GroupClient_delete_def
    by (rule shapeI) simp
next
  case (groups_addLocation groupName location)
  show ?thesis unfolding groups_addLocation invoke.simps GroupClient_addLocation_def Let_def
    by (rule shapeI) simp
next
  case (groups_removeLocation groupName location)
  show ?thesis unfolding groups_removeLocation invoke.simps GroupClient_removeLocation_def Let_def
    by (rule shapeI) simp
next
  case databases_list
  show ?thesis unfolding databases_list invoke.simps DatabaseClient_list_def
    by (rule shapeI) (simp add: thenE_no_Error array_map_no_Error)
next
  case (databases_get name)
  show ?thesis unfolding databases_get invoke.simps DatabaseClient_get_def
    by (rule shapeI) (simp add: thenE_no_Error)
next
  case (databases_create name options)
  show ?thesis unfolding databases_create invoke.simps DatabaseClient_create_def
    by (rule shapeI) simp
next
  case (databases_delete name)
  show ?thesis unfolding databases_delete invoke.simps DatabaseClient_delete_def
    by (rule shapeI) simp
next
  case (databases_createToken dbName options)
  show ?thesis unfolding databases_createToken invoke.simps DatabaseClient_createToken_def Let_def
    by (rule shapeI) simp
qed

subsection \<open>The status in the message\<close>

lemma show_nat_nonempty: "show_nat n \<noteq> []"
  by (subst show_nat.simps) simp

lemma digit_char_inj:
  assumes "a < 10" and "b < 10" and "digit_char a = digit_char b"
  shows "a = b"
proof -
  have "distinct ''0123456789''" by simp
  moreover have "a < length ''0123456789''" "b < length ''0123456789''"
    using assms by simp_all
  ultimately show ?thesis
    using assms(3) unfolding digit_char_def by (simp only: nth_eq_iff_index_eq)
qed

lemma show_nat_length_one: "length (show_nat n) = 1 \<longleftrightarrow> n < 10"
proof (cases "n < 10")
  case True
  then show ?thesis by (subst show_nat.simps) simp
next
  case False
  have "show_nat (n div 10) \<noteq> []" by (rule show_nat_nonempty)
  then have "length (show_nat (n div 10)) \<noteq> 0" by simp
  with False show ?thesis by (subst show_nat.simps) simp
qed

lemma show_nat_inj: "show_nat a = show_nat b \<Longrightarrow> a = b"
proof (induction a arbitrary: b rule: show_nat.induct)
  case (1 a)
  show ?case
  proof (cases "a < 10")
    case True
    with "1.prems" show_nat_length_one [of a] show_nat_length_one [of b]
    have b: "b < 10" by simp
    from True b "1.prems" have "digit_char a = digit_char b"
      by (simp add: show_nat.simps [of a] show_nat.simps [of b])
    with True b show ?thesis by (rule digit_char_inj)
  next
    case False
    with "1.prems" show_nat_length_one [of a] show_nat_length_one [of b]
    have b: "\<not> b < 10" by simp
    from False b "1.prems"
    have eq: "show_nat (a div 10) @ [digit_char (a mod 10)]
              = show_nat (b div 10) @ [digit_char (b mod 10)]"
      by (simp add: show_nat.simps [of a] show_nat.simps [of b])
    then have "show_nat (a div 10) = show_nat (b div 10)"
      and d: "digit_char (a mod 10) = digit_char (b mod 10)" by simp_all
    with "1.IH" False have q: "a div 10 = b div 10" by simp
    have "a mod 10 < 10" "b mod 10 < 10" by simp_all
    with d have r: "a mod 10 = b mod 10" by (simp add: digit_char_inj)
    from q r show ?thesis by (metis div_mult_mod_eq)
  qed
qed

subsection \<open>The bearer token of \<^verbatim>\<open>validate\<close>\<close>

lemma validate_calls:
  "snd (ApiTokenClient_validate e cfg tok) =
     [\<lparr>resource = new_URL ''auth/api-tokens/validate'' (read_optional (baseUrl cfg)),
       init = \<lparr>init_method = None,
               init_headers = Some [(''Authorization'', ''Bearer '' @ token cfg),
                                    (''User-Agent'', ''JS SDK'')],
               init_body = None\<rparr>\<rparr>]"
  by (simp add: ApiTokenClient_validate_def request_def Let_def)

text \<open>
  C1. The claim is that the request of \<^verbatim>\<open>validate(token)\<close> carries the token given as
  the argument in its \<open>Authorization\<close> header. The method does pass such a header to
  \<^verbatim>\<open>TursoClient.request\<close>, which spreads the caller's headers first and writes its own
  \<open>Authorization\<close> after them: the request that is sent carries the token of the
  configuration, whatever the argument is.
\<close>

theorem validate_sends_configured_token:
  "map (\<lambda>call. init_headers (init call)) (snd (ApiTokenClient_validate e cfg tok)) =
     [Some [(''Authorization'', ''Bearer '' @ token cfg), (''User-Agent'', ''JS SDK'')]]"
  by (simp add: ApiTokenClient_validate_def request_def Let_def)

theorem validate_sends_configured_token_witness:
  "map (\<lambda>call. init_headers (init call))
     (snd (ApiTokenClient_validate
        \<lparr>fetch = (\<lambda>call. Some \<lparr>status = 200, json = Some (JObj [(''exp'', JNum 2000)])\<rparr>),
         Date_now = 1500999\<rparr>
        \<lparr>token = ''configured'', org = None, baseUrl = Present ''https://api.turso.tech/v1''\<rparr>
        ''given'')) =
     [Some [(''Authorization'', ''Bearer configured''), (''User-Agent'', ''JS SDK'')]]"
  using validate_sends_configured_token
    [of "\<lparr>fetch = (\<lambda>call. Some \<lparr>status = 200, json = Some (JObj [(''exp'', JNum 2000)])\<rparr>),
         Date_now = 1500999\<rparr>"
        "\<lparr>token = ''configured'', org = None, baseUrl = Present ''https://api.turso.tech/v1''\<rparr>"
        "''given''"]
  by simp

subsection \<open>Responses outside 200 to 299\<close>

text \<open>
  C2. Take any method of any sub-client, and let \<open>r\<close> be the response to the request it
  sent. If the status of \<open>r\<close> is outside 200 to 299, the call fails with the \<open>Error\<close>
  whose message ends in that status, written in decimal; the message is a function of
  the status alone, so the body of \<open>r\<close> (the outcome of \<^verbatim>\<open>response.json()\<close>) has no part in
  it, and no other status gives the same message. If the status is within 200 to 299,
  the call does not fail with an \<open>Error\<close> of any message.
\<close>

theorem non_2xx_fails_with_status:
  assumes "snd (invoke e c m) = [call]" and "fetch e call = Some r"
  shows "(status r < 200 \<or> 299 < status r \<longrightarrow>
            fst (invoke e c m) =
              Inl (Error (''Something went wrong! Status '' @ show_nat (status r))))
       \<and> (200 \<le> status r \<and> status r \<le> 299 \<longrightarrow>
            (\<forall>msg. fst (invoke e c m) \<noteq> Inl (Error msg)))
       \<and> (\<forall>n. ''Something went wrong! Status '' @ show_nat n
                = ''Something went wrong! Status '' @ show_nat (status r) \<longrightarrow> n = status r)"
proof -
  from invoke_shape [OF assms(1)] obtain url cfg opts f
    where eq: "invoke e c m = and_then (request e url cfg opts) f"
      and no: "\<And>v msg. f v \<noteq> Inl (Error msg)" by blast
  from assms(1) have calls: "snd (request e url cfg opts) = [call]" by (simp add: eq)
  have outcome: "fst (request e url cfg opts) =
         (if \<not> ok r
          then Inl (Error (''Something went wrong! Status '' @ show_nat (status r)))
          else (case json r of None \<Rightarrow> Inl SyntaxError | Some v \<Rightarrow> Inr v))"
    using calls assms(2) by (simp add: request_def Let_def)
  have failed: "fst (invoke e c m) =
      Inl (Error (''Something went wrong! Status '' @ show_nat (status r)))"
    if "status r < 200 \<or> 299 < status r"
    using that by (auto simp add: eq outcome ok_def)
  have fine: "fst (invoke e c m) \<noteq> Inl (Error msg)"
    if "200 \<le> status r \<and> status r \<le> 299" for msg
    using that no [of _ msg] by (cases "json r") (simp_all add: eq outcome ok_def)
  from failed fine show ?thesis by (auto dest: show_nat_inj)
qed


theorem non_2xx_fails_with_status_witness:
  "fst (invoke \<lparr>fetch = (\<lambda>call. Some \<lparr>status = 404, json = None\<rparr>), Date_now = 0\<rparr>
         (createClient \<lparr>token = ''t'', org = Some ''acme'', baseUrl = Absent\<rparr>) groups_list)
     = Inl (Error ''Something went wrong! Status 404'')
   \<and> (\<forall>msg. fst (invoke
            \<lparr>fetch = (\<lambda>call. Some \<lparr>status = 200, json = Some (JObj [])\<rparr>), Date_now = 0\<rparr>
            (createClient \<lparr>token = ''t'', org = Some ''acme'', baseUrl = Absent\<rparr>) groups_list)
          \<noteq> Inl (Error msg))"
proof -
  let ?c = "createClient \<lparr>token = ''t'', org = Some ''acme'', baseUrl = Absent\<rparr>"
  let ?call = "\<lparr>resource = new_URL ''organizations/acme/groups'' (Some ''https://api.turso.tech/v1''),
                init = \<lparr>init_method = None,
                        init_headers = Some [(''Authorization'', ''Bearer t''),
                                             (''User-Agent'', ''JS SDK'')],
                        init_body = None\<rparr>\<rparr>"
  have calls: "snd (invoke e ?c groups_list) = [?call]" for e
    by (simp add: createClient_def TursoClient_constructor_def GroupClient_list_def
        request_def empty_init_def Let_def)
  let ?e1 = "\<lparr>fetch = (\<lambda>call. Some \<lparr>status = 404, json = None\<rparr>), Date_now = 0\<rparr>"
  let ?e2 = "\<lparr>fetch = (\<lambda>call. Some \<lparr>status = 200, json = Some (JObj [])\<rparr>), Date_now = 0\<rparr>"
  have "show_nat 404 = ''404''"
    by (simp add: show_nat.simps digit_char_def)
  with non_2xx_fails_with_status [OF calls, of ?e1 "\<lparr>status = 404, json = None\<rparr>",
      THEN conjunct1]
    non_2xx_fails_with_status [OF calls, of ?e2 "\<lparr>status = 200, json = Some (JObj [])\<rparr>",
      THEN conjunct2, THEN conjunct1]
  show ?thesis by simp
qed

subsection \<open>The verdict of \<^verbatim>\<open>validate\<close>\<close>

text \<open>
  C3. Let the server answer the request of \<^verbatim>\<open>validate\<close> with a status in 200 to 299 and
  a body whose \<open>exp\<close> is the integer \<open>exp\<close>, and let \<open>t\<close> be the current Unix time in
  seconds, \<^verbatim>\<open>Math.floor(Date.now() / 1000)\<close>. The method returns \<open>valid\<close> true exactly when
  \<open>exp\<close> is not \<open>-1\<close> and is greater than \<open>t\<close> (so false when \<open>exp\<close> is \<open>-1\<close>, and false
  when \<open>exp \<le> t\<close>), and \<open>expiry\<close> equal to \<open>exp\<close>.
\<close>

theorem validate_verdict:
  assumes "snd (ApiTokenClient_validate e cfg tok) = [call]"
    and "fetch e call = Some r"
    and "200 \<le> status r \<and> status r \<le> 299"
    and "json r = Some body"
    and "get_field body ''exp'' = Inr (JNum exp)"
    and "t = Date_now e div 1000"
  shows "fst (ApiTokenClient_validate e cfg tok) =
           Inr (JObj [(''valid'', JBool (exp \<noteq> - 1 \<and> t < exp)), (''expiry'', JNum exp)])"
  using assms
  by (simp add: ApiTokenClient_validate_def request_def Let_def ok_def strict_neq_number_def)

theorem validate_verdict_witness:
  "fst (ApiTokenClient_validate
          \<lparr>fetch = (\<lambda>call. Some \<lparr>status = 200, json = Some (JObj [(''exp'', JNum 2000)])\<rparr>),
           Date_now = 1500999\<rparr>
          \<lparr>token = ''t'', org = None, baseUrl = Absent\<rparr> ''other'')
     = Inr (JObj [(''valid'', JBool True), (''expiry'', JNum 2000)])
   \<and> fst (ApiTokenClient_validate
          \<lparr>fetch = (\<lambda>call. Some \<lparr>status = 200, json = Some (JObj [(''exp'', JNum (- 1))])\<rparr>),
           Date_now = 1500999\<rparr>
          \<lparr>token = ''t'', org = None, baseUrl = Absent\<rparr> ''other'')
     = Inr (JObj [(''valid'', JBool False), (''expiry'', JNum (- 1))])
   \<and> fst (ApiTokenClient_validate
          \<lparr>fetch = (\<lambda>call. Some \<lparr>status = 200, json = Some (JObj [(''exp'', JNum 1500)])\<rparr>),
           Date_now = 1500999\<rparr>
          \<lparr>token = ''t'', org = None, baseUrl = Absent\<rparr> ''other'')
     = Inr (JObj [(''valid'', JBool False), (''expiry'', JNum 1500)])"
proof -
  let ?cfg = "\<lparr>token = ''t'', org = None, baseUrl = Absent\<rparr>"
  let ?e = "\<lambda>x. \<lparr>fetch = (\<lambda>call. Some \<lparr>status = 200, json = Some (JObj [(''exp'', JNum x)])\<rparr>),
                 Date_now = 1500999\<rparr>"
  have v: "fst (ApiTokenClient_validate (?e x) ?cfg ''other'') =
             Inr (JObj [(''valid'', JBool (x \<noteq> - 1 \<and> 1500 < x)), (''expiry'', JNum x)])" for x
    using validate_verdict
      [where e = "?e x" and cfg = ?cfg and tok = "''other''" and exp = x and t = 1500
         and r = "\<lparr>status = 200, json = Some (JObj [(''exp'', JNum x)])\<rparr>"
         and body = "JObj [(''exp'', JNum x)]", OF validate_calls]
    by (simp add: get_field_def)
  from v [of 2000] v [of "- 1"] v [of 1500] show ?thesis by simp
qed

subsection \<open>The canonical database object\<close>

lemma map_throwing_formatResponse:
  assumes "\<forall>db \<in> set dbs. db \<noteq> JUndefined \<and> db \<noteq> JNull"
  shows "map_throwing formatResponse dbs =
     Inr (map (\<lambda>db. JObj
         [(''name'', field_value db ''Name''),
          (''id'', field_value db ''DbId''),
          (''hostname'', field_value db ''Hostname''),
          (''regions'', field_value db ''regions''),
          (''primaryRegion'', field_value db ''primaryRegion''),
          (''type'', field_value db ''type''),
          (''version'', field_value db ''version''),
          (''group'', field_value db ''group'')]) dbs)"
  using assms by (induction dbs) (simp_all add: formatResponse_eq)

lemma formatResponse_keys:
  assumes "formatResponse db = Inr v"
  shows "\<exists>vals. v = JObj vals \<and> map fst vals =
           [''name'', ''id'', ''hostname'', ''regions'', ''primaryRegion'', ''type'',
            ''version'', ''group'']"
  using assms by (auto simp add: formatResponse_eq split: if_splits)

lemma map_throwing_formatResponse_keys:
  assumes "map_throwing formatResponse dbs = Inr objs"
  shows "\<forall>obj \<in> set objs. \<exists>vals. obj = JObj vals \<and> map fst vals =
           [''name'', ''id'', ''hostname'', ''regions'', ''primaryRegion'', ''type'',
            ''version'', ''group'']"
  using assms
proof (induction dbs arbitrary: objs)
  case Nil
  then show ?case by simp
next
  case (Cons db dbs)
  from Cons.prems obtain v where v: "formatResponse db = Inr v"
    by (cases "formatResponse db") simp_all
  with Cons.prems obtain vs where vs: "map_throwing formatResponse dbs = Inr vs"
    by (cases "map_throwing formatResponse dbs") simp_all
  with v Cons.prems have "objs = v # vs" by simp
  with formatResponse_keys [OF v] Cons.IH [OF vs] show ?case by simp
qed

lemma get_returns_keys:
  assumes "fst (DatabaseClient_get e cfg name) = Inr v"
  shows "\<exists>vals. v = JObj vals \<and> map fst vals =
           [''name'', ''id'', ''hostname'', ''regions'', ''primaryRegion'', ''type'',
            ''version'', ''group'']"
proof -
  let ?p = "request e
          (if truthy_string (org cfg)
           then ''organizations/'' @ template (org cfg) @ ''/databases/'' @ name
           else ''databases/'' @ name)
          cfg None"
  from assms have 1: "thenE (fst ?p)
      (\<lambda>response. thenE (get_field response ''database'') formatResponse) = Inr v"
    by (simp add: DatabaseClient_get_def)
  then obtain response where "fst ?p = Inr response" by (cases "fst ?p") simp_all
  with 1 have 2: "thenE (get_field response ''database'') formatResponse = Inr v" by simp
  then obtain db where "get_field response ''database'' = Inr db"
    by (cases "get_field response ''database''") simp_all
  with 2 have "formatResponse db = Inr v" by simp
  then show ?thesis by (rule formatResponse_keys)
qed

lemma list_returns_keys:
  assumes "fst (DatabaseClient_list e cfg) = Inr v"
  shows "\<exists>objs. v = JArr objs \<and>
           (\<forall>obj \<in> set objs. \<exists>vals. obj = JObj vals \<and> map fst vals =
              [''name'', ''id'', ''hostname'', ''regions'', ''primaryRegion'', ''type'',
               ''version'', ''group''])"
proof -
  let ?p = "request e
          (if truthy_string (org cfg)
           then ''organizations/'' @ template (org cfg) @ ''/databases''
           else ''databases'')
          cfg None"
  from assms have 1: "thenE (fst ?p)
      (\<lambda>response. thenE (get_field response ''databases'')
          (\<lambda>databases. array_map (nullish databases (JArr [])) formatResponse)) = Inr v"
    by (simp add: DatabaseClient_list_def)
  then obtain response where "fst ?p = Inr response" by (cases "fst ?p") simp_all
  with 1 have 2: "thenE (get_field response ''databases'')
          (\<lambda>databases. array_map (nullish databases (JArr [])) formatResponse) = Inr v"
    by simp
  then obtain databases where "get_field response ''databases'' = Inr databases"
    by (cases "get_field response ''databases''") simp_all
  with 2 have 3: "array_map (nullish databases (JArr [])) formatResponse = Inr v" by simp
  then obtain dbs where dbs: "nullish databases (JArr []) = JArr dbs"
    by (cases "nullish databases (JArr [])") simp_all
  with 3 have 4: "thenE (map_throwing formatResponse dbs) (\<lambda>ys. Inr (JArr ys)) = Inr v"
    by simp
  then obtain objs where objs: "map_throwing formatResponse dbs = Inr objs"
    by (cases "map_throwing formatResponse dbs") simp_all
  with 4 have "v = JArr objs" by auto
  with map_throwing_formatResponse_keys [OF objs] show ?thesis by simp
qed

text \<open>
  C4. Whatever the server answers, a value that \<^verbatim>\<open>get\<close> returns is an object with the keys
  \<open>name\<close>, \<open>id\<close>, \<open>hostname\<close>, \<open>regions\<close>, \<open>primaryRegion\<close>, \<open>type\<close>, \<open>version\<close>, \<open>group\<close>,
  and a value that \<^verbatim>\<open>list\<close> returns is an array of such objects. Let the server answer
  with a status in 200 to 299 and a JSON body. When the \<open>database\<close> of the body is a
  value \<open>db\<close> (not \<^verbatim>\<open>null\<close>), \<^verbatim>\<open>get\<close> returns the object whose \<open>name\<close>, \<open>id\<close>, \<open>hostname\<close>
  are the \<open>Name\<close>, \<open>DbId\<close>, \<open>Hostname\<close> of \<open>db\<close>, and whose \<open>regions\<close>, \<open>primaryRegion\<close>,
  \<open>type\<close>, \<open>version\<close>, \<open>group\<close> are those of \<open>db\<close> (undefined where \<open>db\<close> has none). When
  the \<open>databases\<close> of the body is an array of such values, \<^verbatim>\<open>list\<close> returns the array of
  these objects. In particular, for the configuration \<^verbatim>\<open>{token: "t", org: "acme"}\<close> and
  the response
  \<^verbatim>\<open>{database: {Name: "mydb", DbId: "123", Hostname: "h.turso.io", type: "sqld", version: "1"}}\<close>,
  \<^verbatim>\<open>databases.get("mydb")\<close> returns the object of the claim (its properties in the order
  the source writes them).
\<close>

theorem database_objects_canonical:
  "(fst (DatabaseClient_get e cfg name) = Inr v \<longrightarrow>
      (\<exists>vals. v = JObj vals \<and> map fst vals =
         [''name'', ''id'', ''hostname'', ''regions'', ''primaryRegion'', ''type'',
          ''version'', ''group'']))
   \<and> (fst (DatabaseClient_list e cfg) = Inr v \<longrightarrow>
      (\<exists>objs. v = JArr objs \<and>
         (\<forall>obj \<in> set objs. \<exists>vals. obj = JObj vals \<and> map fst vals =
            [''name'', ''id'', ''hostname'', ''regions'', ''primaryRegion'', ''type'',
             ''version'', ''group''])))
   \<and> (fetch e call = Some r \<and> 200 \<le> status r \<and> status r \<le> 299 \<and> json r = Some body
        \<and> snd (DatabaseClient_get e cfg name) = [call]
        \<and> get_field body ''database'' = Inr db \<and> db \<noteq> JUndefined \<and> db \<noteq> JNull
      \<longrightarrow> fst (DatabaseClient_get e cfg name) = Inr (JObj
         [(''name'', field_value db ''Name''),
          (''id'', field_value db ''DbId''),
          (''hostname'', field_value db ''Hostname''),
          (''regions'', field_value db ''regions''),
          (''primaryRegion'', field_value db ''primaryRegion''),
          (''type'', field_value db ''type''),
          (''version'', field_value db ''version''),
          (''group'', field_value db ''group'')]))
   \<and> (fetch e call = Some r \<and> 200 \<le> status r \<and> status r \<le> 299 \<and> json r = Some body
        \<and> snd (DatabaseClient_list e cfg) = [call]
        \<and> get_field body ''databases'' = Inr (JArr dbs)
        \<and> (\<forall>db \<in> set dbs. db \<noteq> JUndefined \<and> db \<noteq> JNull)
      \<longrightarrow> fst (DatabaseClient_list e cfg) = Inr (JArr (map (\<lambda>db. JObj
         [(''name'', field_value db ''Name''),
          (''id'', field_value db ''DbId''),
          (''hostname'', field_value db ''Hostname''),
          (''regions'', field_value db ''regions''),
          (''primaryRegion'', field_value db ''primaryRegion''),
          (''type'', field_value db ''type''),
          (''version'', field_value db ''version''),
          (''group'', field_value db ''group'')]) dbs)))
   \<and> (fetch e call = Some r \<and> 200 \<le> status r \<and> status r \<le> 299 \<and> json r = Some body
        \<and> snd (invoke e (createClient \<lparr>token = ''t'', org = Some ''acme'', baseUrl = Absent\<rparr>)
               (databases_get ''mydb'')) = [call]
        \<and> body = JObj [(''database'', JObj
             [(''Name'', JStr ''mydb''),
              (''DbId'', JStr ''123''),
              (''Hostname'', JStr ''h.turso.io''),
              (''type'', JStr ''sqld''),
              (''version'', JStr ''1'')])]
      \<longrightarrow> fst (invoke e (createClient \<lparr>token = ''t'', org = Some ''acme'', baseUrl = Absent\<rparr>)
               (databases_get ''mydb'')) = Inr (JObj
         [(''name'', JStr ''mydb''),
          (''id'', JStr ''123''),
          (''hostname'', JStr ''h.turso.io''),
          (''regions'', JUndefined),
          (''primaryRegion'', JUndefined),
          (''type'', JStr ''sqld''),
          (''version'', JStr ''1''),
          (''group'', JUndefined)]))"
proof (intro conjI impI; (elim conjE)?)
  assume "fst (DatabaseClient_get e cfg name) = Inr v"
  then show "\<exists>vals. v = JObj vals \<and> map fst vals =
         [''name'', ''id'', ''hostname'', ''regions'', ''primaryRegion'', ''type'',
          ''version'', ''group'']"
    by (rule get_returns_keys)
next
  assume "fst (DatabaseClient_list e cfg) = Inr v"
  then show "\<exists>objs. v = JArr objs \<and>
         (\<forall>obj \<in> set objs. \<exists>vals. obj = JObj vals \<and> map fst vals =
            [''name'', ''id'', ''hostname'', ''regions'', ''primaryRegion'', ''type'',
             ''version'', ''group''])"
    by (rule list_returns_keys)
next
  assume assms: "fetch e call = Some r" "200 \<le> status r" "status r \<le> 299" "json r = Some body"
  assume "snd (DatabaseClient_get e cfg name) = [call]"
    and "get_field body ''database'' = Inr db" and "db \<noteq> JUndefined" and "db \<noteq> JNull"
  with assms show "fst (DatabaseClient_get e cfg name) = Inr (JObj
         [(''name'', field_value db ''Name''),
          (''id'', field_value db ''DbId''),
          (''hostname'', field_value db ''Hostname''),
          (''regions'', field_value db ''regions''),
          (''primaryRegion'', field_value db ''primaryRegion''),
          (''type'', field_value db ''type''),
          (''version'', field_value db ''version''),
          (''group'', field_value db ''group'')])"
    by (simp add: DatabaseClient_get_def request_def Let_def ok_def formatResponse_eq)
next
  assume assms: "fetch e call = Some r" "200 \<le> status r" "status r \<le> 299" "json r = Some body"
  assume "snd (DatabaseClient_list e cfg) = [call]"
    and "get_field body ''databases'' = Inr (JArr dbs)"
    and "\<forall>db \<in> set dbs. db \<noteq> JUndefined \<and> db \<noteq> JNull"
  with assms show "fst (DatabaseClient_list e cfg) = Inr (JArr (map (\<lambda>db. JObj
         [(''name'', field_value db ''Name''),
          (''id'', field_value db ''DbId''),
          (''hostname'', field_value db ''Hostname''),
          (''regions'', field_value db ''regions''),
          (''primaryRegion'', field_value db ''primaryRegion''),
          (''type'', field_value db ''type''),
          (''version'', field_value db ''version''),
          (''group'', field_value db ''group'')]) dbs))"
    by (simp add: DatabaseClient_list_def request_def Let_def ok_def nullish_def
        map_throwing_formatResponse)
next
  let ?c = "createClient \<lparr>token = ''t'', org = Some ''acme'', baseUrl = Absent\<rparr>"
  assume assms: "fetch e call = Some r" "200 \<le> status r" "status r \<le> 299" "json r = Some body"
  assume "snd (invoke e ?c (databases_get ''mydb'')) = [call]"
    and "body = JObj [(''database'', JObj
             [(''Name'', JStr ''mydb''),
              (''DbId'', JStr ''123''),
              (''Hostname'', JStr ''h.turso.io''),
              (''type'', JStr ''sqld''),
              (''version'', JStr ''1'')])]"
  with assms show "fst (invoke e ?c (databases_get ''mydb'')) = Inr (JObj
         [(''name'', JStr ''mydb''),
          (''id'', JStr ''123''),
          (''hostname'', JStr ''h.turso.io''),
          (''regions'', JUndefined),
          (''primaryRegion'', JUndefined),
          (''type'', JStr ''sqld''),
          (''version'', JStr ''1''),
          (''group'', JUndefined)])"
    by (simp add: DatabaseClient_get_def request_def Let_def ok_def formatResponse_eq
        get_field_def)
qed

theorem database_objects_canonical_witness:
  "fst (invoke
          \<lparr>fetch = (\<lambda>call. Some \<lparr>status = 200, json = Some (JObj [(''database'', JObj
             [(''Name'', JStr ''mydb''),
              (''DbId'', JStr ''123''),
              (''Hostname'', JStr ''h.turso.io''),
              (''type'', JStr ''sqld''),
              (''version'', JStr ''1'')])])\<rparr>),
           Date_now = 0\<rparr>
          (createClient \<lparr>token = ''t'', org = Some ''acme'', baseUrl = Absent\<rparr>)
          (databases_get ''mydb''))
     = Inr (JObj
         [(''name'', JStr ''mydb''),
          (''id'', JStr ''123''),
          (''hostname'', JStr ''h.turso.io''),
          (''regions'', JUndefined),
          (''primaryRegion'', JUndefined),
          (''type'', JStr ''sqld''),
          (''version'', JStr ''1''),
          (''group'', JUndefined)])
   \<and> fst (DatabaseClient_list
          \<lparr>fetch = (\<lambda>call. Some \<lparr>status = 200, json = Some (JObj [(''databases'', JArr
             [JObj [(''Name'', JStr ''a''), (''DbId'', JStr ''1''), (''group'', JStr ''g'')]])])\<rparr>),
           Date_now = 0\<rparr>
          \<lparr>token = ''t'', org = None, baseUrl = Absent\<rparr>)
     = Inr (JArr [JObj
         [(''name'', JStr ''a''),
          (''id'', JStr ''1''),
          (''hostname'', JUndefined),
          (''regions'', JUndefined),
          (''primaryRegion'', JUndefined),
          (''type'', JUndefined),
          (''version'', JUndefined),
          (''group'', JStr ''g'')]])"
proof -
  let ?b1 = "JObj [(''database'', JObj
             [(''Name'', JStr ''mydb''),
              (''DbId'', JStr ''123''),
              (''Hostname'', JStr ''h.turso.io''),
              (''type'', JStr ''sqld''),
              (''version'', JStr ''1'')])]"
  let ?r1 = "\<lparr>status = 200, json = Some ?b1\<rparr>"
  let ?e1 = "\<lparr>fetch = (\<lambda>call. Some ?r1), Date_now = 0\<rparr>"
  let ?c = "createClient \<lparr>token = ''t'', org = Some ''acme'', baseUrl = Absent\<rparr>"
  let ?db = "JObj [(''Name'', JStr ''a''), (''DbId'', JStr ''1''), (''group'', JStr ''g'')]"
  let ?b2 = "JObj [(''databases'', JArr [?db])]"
  let ?r2 = "\<lparr>status = 200, json = Some ?b2\<rparr>"
  let ?e2 = "\<lparr>fetch = (\<lambda>call. Some ?r2), Date_now = 0\<rparr>"
  let ?cfg = "\<lparr>token = ''t'', org = None, baseUrl = Absent\<rparr>"
  obtain c1 where "snd (invoke ?e1 ?c (databases_get ''mydb'')) = [c1]"
    by (simp add: DatabaseClient_get_def request_def Let_def)
  with database_objects_canonical
    [where e = ?e1 and call = c1 and r = ?r1 and body = ?b1,
     THEN conjunct2, THEN conjunct2, THEN conjunct2, THEN conjunct2]
  have 1: "fst (invoke ?e1 ?c (databases_get ''mydb'')) = Inr (JObj
         [(''name'', JStr ''mydb''),
          (''id'', JStr ''123''),
          (''hostname'', JStr ''h.turso.io''),
          (''regions'', JUndefined),
          (''primaryRegion'', JUndefined),
          (''type'', JStr ''sqld''),
          (''version'', JStr ''1''),
          (''group'', JUndefined)])"
    by simp
  obtain c2 where "snd (DatabaseClient_list ?e2 ?cfg) = [c2]"
    by (simp add: DatabaseClient_list_def request_def Let_def)
  with database_objects_canonical
    [where e = ?e2 and call = c2 and r = ?r2 and body = ?b2 and cfg = ?cfg and dbs = "[?db]",
     THEN conjunct2, THEN conjunct2, THEN conjunct2, THEN conjunct1]
  have 2: "fst (DatabaseClient_list ?e2 ?cfg) = Inr (JArr [JObj
         [(''name'', JStr ''a''),
          (''id'', JStr ''1''),
          (''hostname'', JUndefined),
          (''regions'', JUndefined),
          (''primaryRegion'', JUndefined),
          (''type'', JUndefined),
          (''version'', JUndefined),
          (''group'', JStr ''g'')]])"
    by (simp add: get_field_def)
  from 1 2 show ?thesis by simp
qed

subsection \<open>Lists without their envelope field\<close>

lemma field_value_missing:
  "k \<notin> fst ` set kvs \<Longrightarrow> get_field (JObj kvs) k = Inr JUndefined"
  by (simp add: get_field_def map_of_eq_None_iff [THEN iffD2])

text \<open>
  C5. Let the server answer the request of a \<open>list\<close>-style method with a status in 200 to
  299 and a JSON object that does not have the field the method reads (\<open>tokens\<close>,
  \<open>organizations\<close>, \<open>members\<close>, \<open>locations\<close>, \<open>groups\<close>, \<open>databases\<close>). The method returns
  the empty list, not an error.
\<close>

theorem list_without_field_is_empty:
  assumes "fetch e call = Some r"
    and "200 \<le> status r \<and> status r \<le> 299"
    and "json r = Some (JObj kvs)"
  shows "(snd (ApiTokenClient_list e cfg) = [call] \<and> ''tokens'' \<notin> fst ` set kvs
            \<longrightarrow> fst (ApiTokenClient_list e cfg) = Inr (JArr []))
       \<and> (snd (OrganizationClient_list e cfg) = [call] \<and> ''organizations'' \<notin> fst ` set kvs
            \<longrightarrow> fst (OrganizationClient_list e cfg) = Inr (JArr []))
       \<and> (snd (OrganizationClient_members e cfg) = [call] \<and> ''members'' \<notin> fst ` set kvs
            \<longrightarrow> fst (OrganizationClient_members e cfg) = Inr (JArr []))
       \<and> (snd (LocationClient_list e cfg) = [call] \<and> ''locations'' \<notin> fst ` set kvs
            \<longrightarrow> fst (LocationClient_list e cfg) = Inr (JArr []))
       \<and> (snd (GroupClient_list e cfg) = [call] \<and> ''groups'' \<notin> fst ` set kvs
            \<longrightarrow> fst (GroupClient_list e cfg) = Inr (JArr []))
       \<and> (snd (DatabaseClient_list e cfg) = [call] \<and> ''databases'' \<notin> fst ` set kvs
            \<longrightarrow> fst (DatabaseClient_list e cfg) = Inr (JArr []))"
proof (intro conjI impI; elim conjE)
  assume "snd (ApiTokenClient_list e cfg) = [call]" and "''tokens'' \<notin> fst ` set kvs"
  with assms show "fst (ApiTokenClient_list e cfg) = Inr (JArr [])"
    by (simp add: ApiTokenClient_list_def request_def Let_def ok_def field_value_missing
        nullish_def)
next
  assume "snd (OrganizationClient_list e cfg) = [call]" and "''organizations'' \<notin> fst ` set kvs"
  with assms show "fst (OrganizationClient_list e cfg) = Inr (JArr [])"
    by (simp add: OrganizationClient_list_def request_def Let_def ok_def field_value_missing
        nullish_def)
next
  assume "snd (OrganizationClient_members e cfg) = [call]" and "''members'' \<notin> fst ` set kvs"
  with assms show "fst (OrganizationClient_members e cfg) = Inr (JArr [])"
    by (simp add: OrganizationClient_members_def request_def Let_def ok_def field_value_missing
        nullish_def)
next
  assume "snd (LocationClient_list e cfg) = [call]" and "''locations'' \<notin> fst ` set kvs"
  with assms show "fst (LocationClient_list e cfg) = Inr (JArr [])"
    by (simp add: LocationClient_list_def request_def Let_def ok_def field_value_missing)
next
  assume "snd (GroupClient_list e cfg) = [call]" and "''groups'' \<notin> fst ` set kvs"
  with assms show "fst (GroupClient_list e cfg) = Inr (JArr [])"
    by (simp add: GroupClient_list_def request_def Let_def ok_def field_value_missing
        nullish_def)
next
  assume "snd (DatabaseClient_list e cfg) = [call]" and "''databases'' \<notin> fst ` set kvs"
  with assms show "fst (DatabaseClient_list e cfg) = Inr (JArr [])"
    by (simp add: DatabaseClient_list_def request_def Let_def ok_def field_value_missing
        nullish_def)
qed

theorem list_without_field_is_empty_witness:
  "fst (ApiTokenClient_list
          \<lparr>fetch = (\<lambda>call. Some \<lparr>status = 200, json = Some (JObj [])\<rparr>), Date_now = 0\<rparr>
          \<lparr>token = ''t'', org = Some ''acme'', baseUrl = Absent\<rparr>) = Inr (JArr [])
   \<and> fst (OrganizationClient_list
          \<lparr>fetch = (\<lambda>call. Some \<lparr>status = 200, json = Some (JObj [])\<rparr>), Date_now = 0\<rparr>
          \<lparr>token = ''t'', org = Some ''acme'', baseUrl = Absent\<rparr>) = Inr (JArr [])
   \<and> fst (OrganizationClient_members
          \<lparr>fetch = (\<lambda>call. Some \<lparr>status = 200, json = Some (JObj [])\<rparr>), Date_now = 0\<rparr>
          \<lparr>token = ''t'', org = Some ''acme'', baseUrl = Absent\<rparr>) = Inr (JArr [])
   \<and> fst (LocationClient_list
          \<lparr>fetch = (\<lambda>call. Some \<lparr>status = 200, json = Some (JObj [])\<rparr>), Date_now = 0\<rparr>
          \<lparr>token = ''t'', org = Some ''acme'', baseUrl = Absent\<rparr>) = Inr (JArr [])
   \<and> fst (GroupClient_list
          \<lparr>fetch = (\<lambda>call. Some \<lparr>status = 200, json = Some (JObj [])\<rparr>), Date_now = 0\<rparr>
          \<lparr>token = ''t'', org = Some ''acme'', baseUrl = Absent\<rparr>) = Inr (JArr [])
   \<and> fst (DatabaseClient_list
          \<lparr>fetch = (\<lambda>call. Some \<lparr>status = 200, json = Some (JObj [])\<rparr>), Date_now = 0\<rparr>
          \<lparr>token = ''t'', org = Some ''acme'', baseUrl = Absent\<rparr>) = Inr (JArr [])"
proof -
  let ?r = "\<lparr>status = 200, json = Some (JObj [])\<rparr>"
  let ?e = "\<lparr>fetch = (\<lambda>call. Some ?r), Date_now = 0\<rparr>"
  let ?cfg = "\<lparr>token = ''t'', org = Some ''acme'', baseUrl = Absent\<rparr>"
  obtain c1 where "snd (ApiTokenClient_list ?e ?cfg) = [c1]"
    by (simp add: ApiTokenClient_list_def request_def Let_def)
  with list_without_field_is_empty
    [where e = ?e and cfg = ?cfg and r = ?r and kvs = "[]" and call = c1]
  have r1: "fst (ApiTokenClient_list ?e ?cfg) = Inr (JArr [])" by simp
  obtain c2 where "snd (OrganizationClient_list ?e ?cfg) = [c2]"
    by (simp add: OrganizationClient_list_def request_def Let_def)
  with list_without_field_is_empty
    [where e = ?e and cfg = ?cfg and r = ?r and kvs = "[]" and call = c2]
  have r2: "fst (OrganizationClient_list ?e ?cfg) = Inr (JArr [])" by simp
  obtain c3 where "snd (OrganizationClient_members ?e ?cfg) = [c3]"
    by (simp add: OrganizationClient_members_def request_def Let_def)
  with list_without_field_is_empty
    [where e = ?e and cfg = ?cfg and r = ?r and kvs = "[]" and call = c3]
  have r3: "fst (OrganizationClient_members ?e ?cfg) = Inr (JArr [])" by simp
  obtain c4 where "snd (LocationClient_list ?e ?cfg) = [c4]"
    by (simp add: LocationClient_list_def request_def Let_def)
  with list_without_field_is_empty
    [where e = ?e and cfg = ?cfg and r = ?r and kvs = "[]" and call = c4]
  have r4: "fst (LocationClient_list ?e ?cfg) = Inr (JArr [])" by simp
  obtain c5 where "snd (GroupClient_list ?e ?cfg) = [c5]"
    by (simp add: GroupClient_list_def request_def Let_def)
  with list_without_field_is_empty
    [where e = ?e and cfg = ?cfg and r = ?r and kvs = "[]" and call = c5]
  have r5: "fst (GroupClient_list ?e ?cfg) = Inr (JArr [])" by simp
  obtain c6 where "snd (DatabaseClient_list ?e ?cfg) = [c6]"
    by (simp add: DatabaseClient_list_def request_def Let_def)
  with list_without_field_is_empty
    [where e = ?e and cfg = ?cfg and r = ?r and kvs = "[]" and call = c6]
  have r6: "fst (DatabaseClient_list ?e ?cfg) = Inr (JArr [])" by simp
  from r1 r2 r3 r4 r5 r6 show ?thesis by simp
qed

subsection \<open>Org-scoped paths\<close>

lemmas group_database_defs =
  GroupClient_list_def GroupClient_get_def GroupClient_create_def
  GroupClient_delete_def GroupClient_addLocation_def GroupClient_removeLocation_def
  DatabaseClient_list_def DatabaseClient_get_def DatabaseClient_create_def
  DatabaseClient_update_def DatabaseClient_delete_def DatabaseClient_createToken_def
  DatabaseClient_rotateTokens_def usage_eq

lemma starts_with_append [simp]: "starts_with p (p @ s)"
  by (simp add: starts_with_def)

lemma created_org [simp]:
  "org (groups (createClient cfg)) = org cfg" "org (databases (createClient cfg)) = org cfg"
  by (simp_all add: createClient_def TursoClient_constructor_def Let_def)

lemma scoped_when_truthy:
  assumes "group_or_database_call m" and "org cfg = Some s" and "s \<noteq> []"
    and "url \<in> set (requested_paths (invoke e (createClient cfg) m))"
  shows "starts_with (''organizations/'' @ s @ ''/'') url"
  using assms
  by (cases m) (auto simp add: group_database_defs Let_def starts_with_def split: if_splits)

lemma legacy_when_falsy:
  assumes "group_or_database_call m" and "\<not> truthy_string (org cfg)"
    and "url \<in> set (requested_paths (invoke e (createClient cfg) m))"
  shows "\<not> starts_with (''organizations/'' @ s) url"
  using assms
  by (cases m) (auto simp add: group_database_defs Let_def starts_with_def split: if_splits)

lemma one_request:
  assumes "\<forall>db opts. m \<noteq> databases_usage db opts"
  shows "length (requested_paths (invoke e c m)) = 1"
  using assms
  by (cases m)
     (simp_all add: group_database_defs Let_def ApiTokenClient_list_def
        ApiTokenClient_create_def ApiTokenClient_revoke_def ApiTokenClient_validate_def
        OrganizationClient_list_def OrganizationClient_members_def LocationClient_list_def)

lemma org_prefix_truthy:
  "truthy_string v \<Longrightarrow> org_prefix v = ''organizations/'' @ template v @ ''/''"
  by (cases v) simp_all

lemma org_prefix_falsy: "\<not> truthy_string v \<Longrightarrow> org_prefix v = []"
  by (cases v) simp_all

lemma starts_with_shorter:
  assumes "starts_with (p @ q) s"
  shows "starts_with p s"
proof -
  from assms have "take (length p) (take (length (p @ q)) s) = take (length p) (p @ q)"
    by (simp only: starts_with_def)
  then show ?thesis by (simp add: starts_with_def min_def)
qed

text \<open>
  C6. The claim is that the path of a \<^verbatim>\<open>GroupClient\<close> or \<^verbatim>\<open>DatabaseClient\<close> request is
  org-scoped exactly when \<open>config.org\<close> is set. Every method tests \<^verbatim>\<open>this.config.org\<close> for
  truth, and the empty string is false: with \<open>org\<close> set to the empty string,
  \<^verbatim>\<open>groups.list()\<close> requests \<^verbatim>\<open>groups\<close>, which is not org-scoped.
\<close>

theorem org_set_but_empty_counterexample:
  "org \<lparr>token = ''t'', org = Some [], baseUrl = Absent\<rparr> \<noteq> None
   \<and> requested_paths
         (invoke \<lparr>fetch = (\<lambda>call. None), Date_now = 0\<rparr>
            (createClient \<lparr>token = ''t'', org = Some [], baseUrl = Absent\<rparr>) groups_list)
       = [''groups'']
   \<and> \<not> starts_with ''organizations/'' ''groups''"
  by (simp add: GroupClient_list_def starts_with_def)

text \<open>
  C6, amended. For every method of \<^verbatim>\<open>GroupClient\<close> and \<^verbatim>\<open>DatabaseClient\<close>, the path of the
  request starts \<^verbatim>\<open>organizations/\<close> exactly when \<open>config.org\<close> is a string that is not
  empty, and then it starts \<^verbatim>\<open>organizations/{org}/\<close>; otherwise (\<open>org\<close> unset or empty) it
  is a legacy path, with no such prefix. Every such method but \<^verbatim>\<open>usage\<close> sends exactly one
  request (\<^verbatim>\<open>usage\<close> sends one or, when a date is invalid, none). Method by method, the
  path is the prefix (\<^verbatim>\<open>organizations/{org}/\<close> or nothing) and then: \<^verbatim>\<open>groups\<close> for
  \<^verbatim>\<open>groups.list\<close> and \<^verbatim>\<open>groups.create\<close>; \<^verbatim>\<open>groups/{name}\<close> for \<^verbatim>\<open>groups.get\<close> and
  \<^verbatim>\<open>groups.delete\<close>; \<^verbatim>\<open>groups/{groupName}/locations/{location}\<close> for \<^verbatim>\<open>addLocation\<close> and
  \<^verbatim>\<open>removeLocation\<close>; \<^verbatim>\<open>databases\<close> for \<^verbatim>\<open>databases.list\<close>; \<^verbatim>\<open>databases/{name}\<close> for
  \<^verbatim>\<open>databases.get\<close>, \<^verbatim>\<open>create\<close> and \<^verbatim>\<open>delete\<close>; \<^verbatim>\<open>databases/{name}/update\<close> for \<^verbatim>\<open>update\<close>
  when org-scoped and \<^verbatim>\<open>databases/{name}\<close> when not;
  \<^verbatim>\<open>databases/{dbName}/auth/tokens?\<close> and a query for \<^verbatim>\<open>createToken\<close>;
  \<^verbatim>\<open>databases/{dbName}/auth/rotate\<close> for \<^verbatim>\<open>rotateTokens\<close>; \<^verbatim>\<open>databases/{dbName}/usage?\<close> and
  a query for \<^verbatim>\<open>usage\<close>.
\<close>

theorem org_scoped_iff_org_truthy:
  "(group_or_database_call m \<longrightarrow>
      (\<forall>url \<in> set (requested_paths (invoke e (createClient cfg) m)).
         (starts_with ''organizations/'' url \<longleftrightarrow> truthy_string (org cfg))
         \<and> (\<forall>s. org cfg = Some s \<and> s \<noteq> [] \<longrightarrow>
               starts_with (''organizations/'' @ s @ ''/'') url)))
   \<and> ((\<forall>db opts. m \<noteq> databases_usage db opts) \<longrightarrow>
        length (requested_paths (invoke e (createClient cfg) m)) = 1)
   \<and> requested_paths (invoke e (createClient cfg) groups_list) =
        [org_prefix (org cfg) @ ''groups'']
   \<and> requested_paths (invoke e (createClient cfg) (groups_get name)) =
        [org_prefix (org cfg) @ ''groups/'' @ name]
   \<and> requested_paths (invoke e (createClient cfg) (groups_create data)) =
        [org_prefix (org cfg) @ ''groups'']
   \<and> requested_paths (invoke e (createClient cfg) (groups_delete name)) =
        [org_prefix (org cfg) @ ''groups/'' @ name]
   \<and> requested_paths (invoke e (createClient cfg) (groups_addLocation groupName location)) =
        [org_prefix (org cfg) @ ''groups/'' @ groupName @ ''/locations/'' @ location]
   \<and> requested_paths (invoke e (createClient cfg) (groups_removeLocation groupName location)) =
        [org_prefix (org cfg) @ ''groups/'' @ groupName @ ''/locations/'' @ location]
   \<and> requested_paths (invoke e (createClient cfg) databases_list) =
        [org_prefix (org cfg) @ ''databases'']
   \<and> requested_paths (invoke e (createClient cfg) (databases_get name)) =
        [org_prefix (org cfg) @ ''databases/'' @ name]
   \<and> requested_paths (invoke e (createClient cfg) (databases_create name create_opts)) =
        [org_prefix (org cfg) @ ''databases/'' @ name]
   \<and> requested_paths (invoke e (createClient cfg) (databases_update name)) =
        [org_prefix (org cfg) @ ''databases/'' @ name
         @ (if truthy_string (org cfg) then ''/update'' else [])]
   \<and> requested_paths (invoke e (createClient cfg) (databases_delete name)) =
        [org_prefix (org cfg) @ ''databases/'' @ name]
   \<and> (\<exists>query. requested_paths (invoke e (createClient cfg)
                   (databases_createToken dbName token_opts)) =
        [org_prefix (org cfg) @ ''databases/'' @ dbName @ ''/auth/tokens?'' @ query])
   \<and> requested_paths (invoke e (createClient cfg) (databases_rotateTokens dbName)) =
        [org_prefix (org cfg) @ ''databases/'' @ dbName @ ''/auth/rotate'']
   \<and> (\<exists>query. requested_paths (invoke e (createClient cfg)
                   (databases_usage dbName usage_opts))
        \<in> {[], [org_prefix (org cfg) @ ''databases/'' @ dbName @ ''/usage?'' @ query]})"
proof (intro conjI impI ballI allI)
  fix url
  assume m: "group_or_database_call m"
    and url: "url \<in> set (requested_paths (invoke e (createClient cfg) m))"
  show "starts_with ''organizations/'' url \<longleftrightarrow> truthy_string (org cfg)"
  proof (cases "truthy_string (org cfg)")
    case True
    then obtain s where s: "org cfg = Some s" "s \<noteq> []" by (cases "org cfg") simp_all
    from scoped_when_truthy [OF m s url]
    have "starts_with (''organizations/'' @ (s @ ''/'')) url" by simp
    then have "starts_with ''organizations/'' url" by (rule starts_with_shorter)
    with True show ?thesis by simp
  next
    case False
    from legacy_when_falsy [OF m False url, of "[]"] False show ?thesis by simp
  qed
next
  fix url s
  assume m: "group_or_database_call m"
    and url: "url \<in> set (requested_paths (invoke e (createClient cfg) m))"
    and "org cfg = Some s \<and> s \<noteq> []"
  then show "starts_with (''organizations/'' @ s @ ''/'') url"
    using scoped_when_truthy [OF m _ _ url] by blast
next
  assume "\<forall>db opts. m \<noteq> databases_usage db opts"
  then show "length (requested_paths (invoke e (createClient cfg) m)) = 1"
    by (rule one_request)
next
  show "\<exists>query. requested_paths (invoke e (createClient cfg)
                   (databases_createToken dbName token_opts)) =
        [org_prefix (org cfg) @ ''databases/'' @ dbName @ ''/auth/tokens?'' @ query]"
    by (cases "truthy_string (org cfg)")
       (simp_all add: DatabaseClient_createToken_def Let_def org_prefix_truthy org_prefix_falsy)
next
  show "\<exists>query. requested_paths (invoke e (createClient cfg)
                   (databases_usage dbName usage_opts))
        \<in> {[], [org_prefix (org cfg) @ ''databases/'' @ dbName @ ''/usage?'' @ query]}"
    by (cases "truthy_string (org cfg)")
       (simp_all add: usage_eq Let_def org_prefix_truthy org_prefix_falsy)
qed (cases "truthy_string (org cfg)";
     simp add: group_database_defs Let_def org_prefix_truthy org_prefix_falsy)+

theorem org_scoped_iff_org_truthy_witness:
  "requested_paths
     (invoke \<lparr>fetch = (\<lambda>call. None), Date_now = 0\<rparr>
        (createClient \<lparr>token = ''t'', org = Some ''acme'', baseUrl = Absent\<rparr>) groups_list)
     = [''organizations/acme/groups'']
   \<and> starts_with ''organizations/acme/'' ''organizations/acme/groups''
   \<and> requested_paths
     (invoke \<lparr>fetch = (\<lambda>call. None), Date_now = 0\<rparr>
        (createClient \<lparr>token = ''t'', org = None, baseUrl = Absent\<rparr>) groups_list)
     = [''groups'']
   \<and> \<not> starts_with ''organizations/'' ''groups''
   \<and> requested_paths
     (invoke \<lparr>fetch = (\<lambda>call. None), Date_now = 0\<rparr>
        (createClient \<lparr>token = ''t'', org = None, baseUrl = Absent\<rparr>) (groups_get ''g''))
     = [''groups/g'']
   \<and> \<not> starts_with ''organizations/'' ''groups/g''
   \<and> requested_paths
     (invoke \<lparr>fetch = (\<lambda>call. None), Date_now = 0\<rparr>
        (createClient \<lparr>token = ''t'', org = Some ''acme'', baseUrl = Absent\<rparr>)
        (databases_update ''mydb''))
     = [''organizations/acme/databases/mydb/update'']
   \<and> length (requested_paths
     (invoke \<lparr>fetch = (\<lambda>call. None), Date_now = 0\<rparr>
        (createClient \<lparr>token = ''t'', org = Some ''acme'', baseUrl = Absent\<rparr>)
        (databases_update ''mydb''))) = 1"
proof -
  let ?e = "\<lparr>fetch = (\<lambda>call. None), Date_now = 0\<rparr>"
  let ?acme = "\<lparr>token = ''t'', org = Some ''acme'', baseUrl = Absent\<rparr>"
  let ?none = "\<lparr>token = ''t'', org = None, baseUrl = Absent\<rparr>"
  note T = org_scoped_iff_org_truthy
    [where e = ?e and name = "''g''" and data = JNull and groupName = "''g''"
       and location = "''l''" and create_opts = None and dbName = "''mydb''"
       and token_opts = None and usage_opts = None]
  note list_acme = T [where cfg = ?acme and m = groups_list]
  note list_none = T [where cfg = ?none and m = groups_list]
  note get_none = T [where cfg = ?none and m = "groups_get ''g''"]
  have 1: "requested_paths (invoke ?e (createClient ?acme) groups_list)
      = [''organizations/acme/groups'']"
    using list_acme by simp
  have 2: "starts_with ''organizations/acme/'' ''organizations/acme/groups''"
    using list_acme [THEN conjunct1] 1 by simp
  have 3: "requested_paths (invoke ?e (createClient ?none) groups_list) = [''groups'']"
    using list_none by simp
  have 4: "\<not> starts_with ''organizations/'' ''groups''"
    using list_none [THEN conjunct1] 3 by simp
  have 5: "requested_paths (invoke ?e (createClient ?none) (groups_get ''g'')) = [''groups/g'']"
    using get_none by simp
  have 6: "\<not> starts_with ''organizations/'' ''groups/g''"
    using get_none [THEN conjunct1] 5 by simp
  note upd = org_scoped_iff_org_truthy
    [where e = ?e and cfg = ?acme and m = "databases_update ''mydb''" and name = "''mydb''"
       and data = JNull and groupName = "''g''" and location = "''l''" and create_opts = None
       and dbName = "''mydb''" and token_opts = None and usage_opts = None]
  have 7: "requested_paths (invoke ?e (createClient ?acme) (databases_update ''mydb''))
      = [''organizations/acme/databases/mydb/update'']"
    using upd by simp
  have 8: "length (requested_paths
      (invoke ?e (createClient ?acme) (databases_update ''mydb''))) = 1"
    using upd [THEN conjunct2, THEN conjunct1] by simp
  from 1 2 3 4 5 6 7 8 show ?thesis by simp
qed

subsection \<open>The result of \<^verbatim>\<open>usage\<close>\<close>

text \<open>
  C7. Let the server answer the request of \<^verbatim>\<open>usage\<close> with a status in 200 to 299 and an
  object in which \<open>database\<close> is \<open>d\<close>, whatever else the object holds (\<open>instances\<close>,
  \<open>total\<close>). The method returns \<open>d\<close>, and nothing of the other properties.
\<close>

theorem usage_returns_database:
  assumes "snd (DatabaseClient_usage e cfg db opts) = [call]"
    and "fetch e call = Some r"
    and "200 \<le> status r \<and> status r \<le> 299"
    and "json r = Some (JObj kvs)"
    and "map_of kvs ''database'' = Some d"
  shows "fst (DatabaseClient_usage e cfg db opts) = Inr d"
proof -
  let ?f = "(case opts of None \<Rightarrow> None | Some given \<Rightarrow> options_from given)"
  let ?t = "(case opts of None \<Rightarrow> None | Some given \<Rightarrow> options_to given)"
  from assms(1) have valid:
    "\<not> (?f = Some (DateValue (Date None)) \<or> ?t = Some (DateValue (Date None)))"
    by (auto simp add: usage_eq Let_def)
  with assms show ?thesis
    by (simp add: usage_eq Let_def request_def ok_def get_field_def)
qed

theorem usage_returns_database_witness:
  "fst (DatabaseClient_usage
          \<lparr>fetch = (\<lambda>call. Some \<lparr>status = 200, json = Some (JObj
             [(''database'', JObj [(''uuid'', JStr ''u1'')]),
              (''instances'', JObj [(''i1'', JObj [(''rows_read'', JNum 1)])]),
              (''total'', JObj [(''rows_read'', JNum 1)])])\<rparr>),
           Date_now = 0\<rparr>
          \<lparr>token = ''t'', org = Some ''acme'', baseUrl = Absent\<rparr> ''mydb'' None)
     = Inr (JObj [(''uuid'', JStr ''u1'')])"
proof -
  let ?r = "\<lparr>status = 200, json = Some (JObj
             [(''database'', JObj [(''uuid'', JStr ''u1'')]),
              (''instances'', JObj [(''i1'', JObj [(''rows_read'', JNum 1)])]),
              (''total'', JObj [(''rows_read'', JNum 1)])])\<rparr>"
  let ?e = "\<lparr>fetch = (\<lambda>call. Some ?r), Date_now = 0\<rparr>"
  let ?cfg = "\<lparr>token = ''t'', org = Some ''acme'', baseUrl = Absent\<rparr>"
  obtain call where "snd (DatabaseClient_usage ?e ?cfg ''mydb'' None) = [call]"
    by (simp add: usage_eq Let_def request_def)
  from usage_returns_database [OF this, of ?r _ "JObj [(''uuid'', JStr ''u1'')]"]
  show ?thesis by simp
qed

subsection \<open>The stored configuration\<close>

text \<open>
  C8. The configuration the client stores has the \<open>baseUrl\<close> of the argument when the
  argument has one and \<^verbatim>\<open>https://api.turso.tech/v1\<close> when it has none, and the \<open>token\<close>
  and \<open>org\<close> of the argument; each of the five sub-clients holds that configuration.
\<close>

theorem createClient_config:
  "(baseUrl c = Absent \<longrightarrow>
      baseUrl (config (createClient c)) = Present ''https://api.turso.tech/v1'')
   \<and> (baseUrl c \<noteq> Absent \<longrightarrow> baseUrl (config (createClient c)) = baseUrl c)
   \<and> token (config (createClient c)) = token c
   \<and> org (config (createClient c)) = org c
   \<and> apiTokens (createClient c) = config (createClient c)
   \<and> organizations (createClient c) = config (createClient c)
   \<and> locations (createClient c) = config (createClient c)
   \<and> groups (createClient c) = config (createClient c)
   \<and> databases (createClient c) = config (createClient c)"
  by (cases "baseUrl c") (simp_all add: createClient_def TursoClient_constructor_def Let_def)

theorem createClient_config_witness:
  "config (createClient \<lparr>token = ''t'', org = Some ''acme'', baseUrl = Absent\<rparr>)
     = \<lparr>token = ''t'', org = Some ''acme'', baseUrl = Present ''https://api.turso.tech/v1''\<rparr>
   \<and> config (createClient \<lparr>token = ''t'', org = None, baseUrl = Present ''http://localhost:8080''\<rparr>)
     = \<lparr>token = ''t'', org = None, baseUrl = Present ''http://localhost:8080''\<rparr>"
  using createClient_config [of "\<lparr>token = ''t'', org = Some ''acme'', baseUrl = Absent\<rparr>"]
    createClient_config [of "\<lparr>token = ''t'', org = None, baseUrl = Present ''http://localhost:8080''\<rparr>"]
  by (simp add: createClient_def TursoClient_constructor_def Let_def)

subsection \<open>Query strings\<close>

lemma set_if_truthy_fresh:
  "k \<notin> fst ` set q \<Longrightarrow> set_if_truthy q k v = q @ query_pair k v"
  by (cases v) (simp_all add: set_if_truthy_def URLSearchParams_set_fresh)

lemma query_pair_keys:
  "fst ` set (query_pair k v) = (if truthy_string v then {k} else {})"
  by (cases v) simp_all

lemma date_pair_keys_valid:
  assumes "v \<noteq> Some (DateValue (Date None))"
  shows "fst ` set (date_pair k v) = (if \<exists>d. v = Some d \<and> truthy_date d then {k} else {})"
  using assms by (induction k v rule: date_pair.induct) simp_all

lemma createToken_paths:
  "requested_paths (DatabaseClient_createToken e cfg dbName options) =
     [(if truthy_string (org cfg)
       then ''organizations/'' @ template (org cfg) @ ''/databases/'' @ dbName @ ''/auth/tokens''
       else ''databases/'' @ dbName @ ''/auth/tokens'')
      @ ''?'' @ URLSearchParams_toString
         (query_pair ''expiration''
            (case options of None \<Rightarrow> None | Some given \<Rightarrow> options_expiration given)
          @ query_pair ''authorization''
            (case options of None \<Rightarrow> None | Some given \<Rightarrow> options_authorization given))]"
proof -
  let ?x = "(case options of None \<Rightarrow> None | Some given \<Rightarrow> options_expiration given)"
  let ?a = "(case options of None \<Rightarrow> None | Some given \<Rightarrow> options_authorization given)"
  have 1: "set_if_truthy [] ''expiration'' ?x = query_pair ''expiration'' ?x"
    by (simp add: set_if_truthy_fresh)
  have "''authorization'' \<notin> fst ` set (query_pair ''expiration'' ?x)"
    by (simp add: query_pair_keys)
  then have 2: "set_if_truthy (query_pair ''expiration'' ?x) ''authorization'' ?a
      = query_pair ''expiration'' ?x @ query_pair ''authorization'' ?a"
    by (rule set_if_truthy_fresh)
  show ?thesis
    by (simp add: DatabaseClient_createToken_def Let_def 1 2)
qed

lemma usage_paths:
  "requested_paths (DatabaseClient_usage e cfg dbName options) =
     (if (case options of None \<Rightarrow> None | Some given \<Rightarrow> options_from given)
           = Some (DateValue (Date None))
         \<or> (case options of None \<Rightarrow> None | Some given \<Rightarrow> options_to given)
           = Some (DateValue (Date None))
      then []
      else [(if truthy_string (org cfg)
             then ''organizations/'' @ template (org cfg) @ ''/databases/'' @ dbName @ ''/usage''
             else ''databases/'' @ dbName @ ''/usage'')
            @ ''?'' @ URLSearchParams_toString
               (date_pair ''from''
                  (case options of None \<Rightarrow> None | Some given \<Rightarrow> options_from given)
                @ date_pair ''to''
                  (case options of None \<Rightarrow> None | Some given \<Rightarrow> options_to given))])"
  by (simp add: usage_eq Let_def)

lemma toString_empty: "URLSearchParams_toString [] = []"
  by (simp add: URLSearchParams_toString_def intercalate_def)

text \<open>
  C9. \<^verbatim>\<open>createToken\<close> sends one request, whose URL is the path, a \<^verbatim>\<open>?\<close>, and the query
  string of the pairs for \<open>expiration\<close> and \<open>authorization\<close>: a name is among them exactly
  when the option is provided and truthy. \<^verbatim>\<open>usage\<close> does the same with \<open>from\<close> and \<open>to\<close>
  (a date is always truthy), unless a date is invalid: then \<^verbatim>\<open>toISOString\<close> throws and
  no request is sent. Without options the URL is the path and a \<^verbatim>\<open>?\<close>, the query string
  being empty.
\<close>

theorem query_string_of_options:
  assumes "x = (case options of None \<Rightarrow> None | Some given \<Rightarrow> options_expiration given)"
    and "a = (case options of None \<Rightarrow> None | Some given \<Rightarrow> options_authorization given)"
    and "f = (case usage_opts of None \<Rightarrow> None | Some given \<Rightarrow> options_from given)"
    and "t = (case usage_opts of None \<Rightarrow> None | Some given \<Rightarrow> options_to given)"
  shows
    "requested_paths (DatabaseClient_createToken e cfg dbName options) =
       [(if truthy_string (org cfg)
         then ''organizations/'' @ template (org cfg) @ ''/databases/'' @ dbName @ ''/auth/tokens''
         else ''databases/'' @ dbName @ ''/auth/tokens'')
        @ ''?'' @ URLSearchParams_toString
           (query_pair ''expiration'' x @ query_pair ''authorization'' a)]
     \<and> fst ` set (query_pair ''expiration'' x @ query_pair ''authorization'' a) =
         (if truthy_string x then {''expiration''} else {})
         \<union> (if truthy_string a then {''authorization''} else {})
     \<and> (f \<noteq> Some (DateValue (Date None)) \<and> t \<noteq> Some (DateValue (Date None)) \<longrightarrow>
          requested_paths (DatabaseClient_usage e cfg dbName usage_opts) =
            [(if truthy_string (org cfg)
              then ''organizations/'' @ template (org cfg) @ ''/databases/'' @ dbName @ ''/usage''
              else ''databases/'' @ dbName @ ''/usage'')
             @ ''?'' @ URLSearchParams_toString (date_pair ''from'' f @ date_pair ''to'' t)]
          \<and> fst ` set (date_pair ''from'' f @ date_pair ''to'' t) =
              (if \<exists>d. f = Some d \<and> truthy_date d then {''from''} else {})
              \<union> (if \<exists>d. t = Some d \<and> truthy_date d then {''to''} else {}))
     \<and> (f = Some (DateValue (Date None)) \<or> t = Some (DateValue (Date None)) \<longrightarrow>
          requested_paths (DatabaseClient_usage e cfg dbName usage_opts) = [])
     \<and> (options = None \<longrightarrow>
          requested_paths (DatabaseClient_createToken e cfg dbName options) =
            [(if truthy_string (org cfg)
              then ''organizations/'' @ template (org cfg) @ ''/databases/'' @ dbName
                     @ ''/auth/tokens''
              else ''databases/'' @ dbName @ ''/auth/tokens'') @ ''?''])
     \<and> (usage_opts = None \<longrightarrow>
          requested_paths (DatabaseClient_usage e cfg dbName usage_opts) =
            [(if truthy_string (org cfg)
              then ''organizations/'' @ template (org cfg) @ ''/databases/'' @ dbName @ ''/usage''
              else ''databases/'' @ dbName @ ''/usage'') @ ''?''])"
proof (intro conjI impI)
  show "requested_paths (DatabaseClient_createToken e cfg dbName options) =
       [(if truthy_string (org cfg)
         then ''organizations/'' @ template (org cfg) @ ''/databases/'' @ dbName @ ''/auth/tokens''
         else ''databases/'' @ dbName @ ''/auth/tokens'')
        @ ''?'' @ URLSearchParams_toString
           (query_pair ''expiration'' x @ query_pair ''authorization'' a)]"
    unfolding assms by (rule createToken_paths)
next
  show "fst ` set (query_pair ''expiration'' x @ query_pair ''authorization'' a) =
         (if truthy_string x then {''expiration''} else {})
         \<union> (if truthy_string a then {''authorization''} else {})"
    by (simp only: set_append image_Un query_pair_keys)
next
  assume valid: "f \<noteq> Some (DateValue (Date None)) \<and> t \<noteq> Some (DateValue (Date None))"
  then show "requested_paths (DatabaseClient_usage e cfg dbName usage_opts) =
            [(if truthy_string (org cfg)
              then ''organizations/'' @ template (org cfg) @ ''/databases/'' @ dbName @ ''/usage''
              else ''databases/'' @ dbName @ ''/usage'')
             @ ''?'' @ URLSearchParams_toString (date_pair ''from'' f @ date_pair ''to'' t)]"
    unfolding assms by (simp add: usage_paths)
  from valid show "fst ` set (date_pair ''from'' f @ date_pair ''to'' t) =
              (if \<exists>d. f = Some d \<and> truthy_date d then {''from''} else {})
              \<union> (if \<exists>d. t = Some d \<and> truthy_date d then {''to''} else {})"
    using date_pair_keys_valid [of f "''from''"] date_pair_keys_valid [of t "''to''"]
    by (simp only: set_append image_Un) simp
next
  assume "f = Some (DateValue (Date None)) \<or> t = Some (DateValue (Date None))"
  then show "requested_paths (DatabaseClient_usage e cfg dbName usage_opts) = []"
    unfolding assms by (simp add: usage_paths)
next
  assume "options = None"
  then show "requested_paths (DatabaseClient_createToken e cfg dbName options) =
            [(if truthy_string (org cfg)
              then ''organizations/'' @ template (org cfg) @ ''/databases/'' @ dbName
                     @ ''/auth/tokens''
              else ''databases/'' @ dbName @ ''/auth/tokens'') @ ''?'']"
    by (simp add: createToken_paths toString_empty)
next
  assume "usage_opts = None"
  then show "requested_paths (DatabaseClient_usage e cfg dbName usage_opts) =
            [(if truthy_string (org cfg)
              then ''organizations/'' @ template (org cfg) @ ''/databases/'' @ dbName @ ''/usage''
              else ''databases/'' @ dbName @ ''/usage'') @ ''?'']"
    by (simp add: usage_paths toString_empty)
qed

lemma urlencode_example:
  "URLSearchParams_toString [(''from'', ''2024-01-01T00:00:00.000Z'')]
     = ''from=2024-01-01T00%3A00%3A00.000Z''"
  by (simp add: URLSearchParams_toString_def intercalate_def urlencode_def urlencode_char_def
      unreserved_def hex_upper_def)

theorem query_string_of_options_witness:
  "requested_paths (DatabaseClient_createToken
       \<lparr>fetch = (\<lambda>call. None), Date_now = 0\<rparr>
       \<lparr>token = ''t'', org = Some ''acme'', baseUrl = Absent\<rparr> ''mydb''
       (Some \<lparr>options_expiration = None, options_authorization = Some ''read-only''\<rparr>))
     = [''organizations/acme/databases/mydb/auth/tokens?authorization=read-only'']
   \<and> requested_paths (DatabaseClient_createToken
       \<lparr>fetch = (\<lambda>call. None), Date_now = 0\<rparr>
       \<lparr>token = ''t'', org = Some ''acme'', baseUrl = Absent\<rparr> ''mydb'' None)
     = [''organizations/acme/databases/mydb/auth/tokens?'']
   \<and> requested_paths (DatabaseClient_usage
       \<lparr>fetch = (\<lambda>call. None), Date_now = 0\<rparr>
       \<lparr>token = ''t'', org = None, baseUrl = Absent\<rparr> ''mydb''
       (Some \<lparr>options_from = Some (DateValue (Date (Some ''2024-01-01T00:00:00.000Z''))),
              options_to = Some (StringValue [])\<rparr>))
     = [''databases/mydb/usage?from=2024-01-01T00%3A00%3A00.000Z'']
   \<and> requested_paths (DatabaseClient_usage
       \<lparr>fetch = (\<lambda>call. None), Date_now = 0\<rparr>
       \<lparr>token = ''t'', org = None, baseUrl = Absent\<rparr> ''mydb''
       (Some \<lparr>options_from = Some (DateValue (Date None)), options_to = None\<rparr>))
     = []
   \<and> requested_paths (DatabaseClient_usage
       \<lparr>fetch = (\<lambda>call. None), Date_now = 0\<rparr>
       \<lparr>token = ''t'', org = None, baseUrl = Absent\<rparr> ''mydb'' None)
     = [''databases/mydb/usage?'']"
proof -
  let ?e = "\<lparr>fetch = (\<lambda>call. None), Date_now = 0\<rparr>"
  let ?acme = "\<lparr>token = ''t'', org = Some ''acme'', baseUrl = Absent\<rparr>"
  let ?none = "\<lparr>token = ''t'', org = None, baseUrl = Absent\<rparr>"
  let ?ro = "Some \<lparr>options_expiration = None, options_authorization = Some ''read-only''\<rparr>"
  let ?d = "Some \<lparr>options_from = Some (DateValue (Date (Some ''2024-01-01T00:00:00.000Z''))),
              options_to = Some (StringValue [])\<rparr>"
  let ?bad = "Some \<lparr>options_from = Some (DateValue (Date None)), options_to = None\<rparr>"
  note encode = URLSearchParams_toString_def intercalate_def urlencode_def urlencode_char_def
      unreserved_def hex_upper_def
  note T = query_string_of_options [OF refl refl refl refl]
  from T [where e = ?e and cfg = ?acme and dbName = "''mydb''" and options = ?ro
      and usage_opts = None, THEN conjunct1]
  have 1: "requested_paths (DatabaseClient_createToken ?e ?acme ''mydb'' ?ro)
     = [''organizations/acme/databases/mydb/auth/tokens?authorization=read-only'']"
    by (simp add: encode)
  from T [where e = ?e and cfg = ?acme and dbName = "''mydb''" and options = None
      and usage_opts = None]
  have 2: "requested_paths (DatabaseClient_createToken ?e ?acme ''mydb'' None)
     = [''organizations/acme/databases/mydb/auth/tokens?'']"
    by (simp add: toString_empty)
  from T [where e = ?e and cfg = ?none and dbName = "''mydb''" and usage_opts = ?d
      and options = None]
  have 3: "requested_paths (DatabaseClient_usage ?e ?none ''mydb'' ?d)
     = [''databases/mydb/usage?from=2024-01-01T00%3A00%3A00.000Z'']"
    by (simp add: encode)
  from T [where e = ?e and cfg = ?none and dbName = "''mydb''" and usage_opts = ?bad
      and options = None]
  have 4: "requested_paths (DatabaseClient_usage ?e ?none ''mydb'' ?bad) = []"
    by simp
  from T [where e = ?e and cfg = ?none and dbName = "''mydb''" and usage_opts = None
      and options = None]
  have 5: "requested_paths (DatabaseClient_usage ?e ?none ''mydb'' None)
     = [''databases/mydb/usage?'']"
    by (simp add: toString_empty)
  from 1 2 3 4 5 show ?thesis by simp
qed

subsection \<open>The body of \<^verbatim>\<open>create\<close>\<close>

lemma requested_bodies_request:
  "requested_bodies (and_then (request e url cfg (Some opts)) f) = [init_body opts]"
  by (simp add: requested_bodies_def request_def Let_def)

lemma set_property_fresh:
  "k \<notin> fst ` set kvs \<Longrightarrow> set_property kvs k v = kvs @ [(k, v)]"
  by (induction kvs) auto

lemma spread_fresh:
  assumes "distinct (map fst props)" and "fst ` set obj \<inter> fst ` set props = {}"
  shows "spread obj props = obj @ props"
  using assms
proof (induction props arbitrary: obj)
  case Nil
  then show ?case by (simp add: spread_def)
next
  case (Cons p props)
  obtain k v where p: "p = (k, v)" by (cases p)
  from Cons.prems p have fresh: "k \<notin> fst ` set obj" by auto
  from Cons.prems p have "distinct (map fst props)"
    and "fst ` set (obj @ [(k, v)]) \<inter> fst ` set props = {}" by auto
  from Cons.IH [OF this] have "spread (obj @ [(k, v)]) props = (obj @ [(k, v)]) @ props" .
  with fresh p show ?case by (simp add: spread_def set_property_fresh)
qed

lemma stringify_string_properties:
  assumes "\<forall>v \<in> snd ` set props. v = JUndefined \<or> (\<exists>s. v = JStr s)"
  shows "stringify_properties props =
           concat (map (\<lambda>(k, v). case v of JStr s \<Rightarrow> [quote k @ '':'' @ quote s] | _ \<Rightarrow> [])
                     props)"
  using assms by (induction props) auto

lemma quote_plain:
  assumes "\<forall>c \<in> set s. 32 \<le> (of_char c :: nat) \<and> c \<noteq> CHR 0x22 \<and> c \<noteq> CHR 0x5C"
  shows "quote s = [CHR 0x22] @ s @ [CHR 0x22]"
proof -
  have "escape_char c = [c]"
    if "32 \<le> (of_char c :: nat)" and "c \<noteq> CHR 0x22" and "c \<noteq> CHR 0x5C" for c
    using that by (auto simp add: escape_char_def)
  with assms have "concat (map escape_char s) = s" by (induction s) simp_all
  then show ?thesis by (simp add: quote_def)
qed

text \<open>
  C10. The claim is that, when options are provided to \<^verbatim>\<open>create\<close>, the body has \<open>name\<close>
  and exactly the keys present in the options. The body is
  \<^verbatim>\<open>JSON.stringify({ name, ...options })\<close>, and \<^verbatim>\<open>JSON.stringify\<close> leaves out a property whose
  value is \<^verbatim>\<open>undefined\<close>: for the options \<^verbatim>\<open>{image: "latest", group: undefined}\<close>, which
  have the key \<open>group\<close>, the body has no \<open>group\<close>.
\<close>

theorem create_body_undefined_counterexample:
  "''group'' \<in> fst ` set [(''image'', JStr ''latest''), (''group'', JUndefined)]
   \<and> requested_bodies (DatabaseClient_create
         \<lparr>fetch = (\<lambda>call. None), Date_now = 0\<rparr>
         \<lparr>token = ''t'', org = None, baseUrl = Absent\<rparr> ''db1''
         (Some [(''image'', JStr ''latest''), (''group'', JUndefined)]))
       = [Some (''{'' @ [CHR 0x22] @ ''name'' @ [CHR 0x22] @ '':'' @ [CHR 0x22] @ ''db1'' @ [CHR 0x22] @ '','' @ [CHR 0x22] @ ''image'' @ [CHR 0x22] @ '':'' @ [CHR 0x22] @ ''latest'' @ [CHR 0x22] @ ''}'')]"
  by (simp add: DatabaseClient_create_def requested_bodies_request spread_def
      intercalate_def quote_def escape_char_def)

text \<open>
  C10, amended. With the options omitted, the body of the request of \<^verbatim>\<open>create(name)\<close> is
  the JSON text of an object with the one member \<open>name\<close>: no \<open>image\<close>, no \<open>group\<close>. With
  options (an object whose values are strings or undefined, and which has no \<open>name\<close>), it
  is the JSON text of the object with \<open>name\<close> first and then one member for each property
  of the options whose value is not undefined, in the order the options have them, and
  no other member. A string is written between double quotes, as it is when it has no
  double quote, backslash or control character.
\<close>

theorem create_body:
  "requested_bodies (DatabaseClient_create e cfg name None) =
     [Some (''{'' @ [CHR 0x22] @ ''name'' @ [CHR 0x22] @ '':'' @ quote name @ ''}'')]
   \<and> (distinct (map fst props) \<and> ''name'' \<notin> fst ` set props
        \<and> (\<forall>v \<in> snd ` set props. v = JUndefined \<or> (\<exists>s. v = JStr s))
      \<longrightarrow> requested_bodies (DatabaseClient_create e cfg name (Some props)) =
            [Some (''{'' @ intercalate '',''
               (([CHR 0x22] @ ''name'' @ [CHR 0x22] @ '':'' @ quote name)
                # concat (map (\<lambda>(k, v). case v of JStr s \<Rightarrow> [quote k @ '':'' @ quote s] | _ \<Rightarrow> [])
                   props))
               @ ''}'')])
   \<and> ((\<forall>c \<in> set name. 32 \<le> (of_char c :: nat) \<and> c \<noteq> CHR 0x22 \<and> c \<noteq> CHR 0x5C)
      \<longrightarrow> quote name = [CHR 0x22] @ name @ [CHR 0x22])"
proof (intro conjI impI; (elim conjE)?)
  show "requested_bodies (DatabaseClient_create e cfg name None) =
     [Some (''{'' @ [CHR 0x22] @ ''name'' @ [CHR 0x22] @ '':'' @ quote name @ ''}'')]"
    by (simp add: DatabaseClient_create_def requested_bodies_request spread_def
        intercalate_def quote_def escape_char_def)
next
  assume d: "distinct (map fst props)" and n: "''name'' \<notin> fst ` set props"
    and t: "\<forall>v \<in> snd ` set props. v = JUndefined \<or> (\<exists>s. v = JStr s)"
  from d n have "spread [(''name'', JStr name)] props = (''name'', JStr name) # props"
    by (simp add: spread_fresh)
  moreover have "quote ''name'' = [CHR 0x22] @ ''name'' @ [CHR 0x22]"
    by (simp add: quote_def escape_char_def)
  ultimately show "requested_bodies (DatabaseClient_create e cfg name (Some props)) =
            [Some (''{'' @ intercalate '',''
               (([CHR 0x22] @ ''name'' @ [CHR 0x22] @ '':'' @ quote name)
                # concat (map (\<lambda>(k, v). case v of JStr s \<Rightarrow> [quote k @ '':'' @ quote s] | _ \<Rightarrow> [])
                   props))
               @ ''}'')]"
    by (simp add: DatabaseClient_create_def requested_bodies_request
        stringify_string_properties [OF t])
next
  assume "\<forall>c \<in> set name. 32 \<le> (of_char c :: nat) \<and> c \<noteq> CHR 0x22 \<and> c \<noteq> CHR 0x5C"
  then show "quote name = [CHR 0x22] @ name @ [CHR 0x22]" by (rule quote_plain)
qed

theorem create_body_witness:
  "requested_bodies (DatabaseClient_create
       \<lparr>fetch = (\<lambda>call. None), Date_now = 0\<rparr>
       \<lparr>token = ''t'', org = None, baseUrl = Absent\<rparr> ''db1'' None)
     = [Some (''{'' @ [CHR 0x22] @ ''name'' @ [CHR 0x22] @ '':'' @ [CHR 0x22] @ ''db1'' @ [CHR 0x22] @ ''}'')]
   \<and> requested_bodies (DatabaseClient_create
       \<lparr>fetch = (\<lambda>call. None), Date_now = 0\<rparr>
       \<lparr>token = ''t'', org = None, baseUrl = Absent\<rparr> ''db1''
       (Some [(''group'', JStr ''g''), (''image'', JStr ''canary'')]))
     = [Some (''{'' @ [CHR 0x22] @ ''name'' @ [CHR 0x22] @ '':'' @ [CHR 0x22] @ ''db1'' @ [CHR 0x22] @ '','' @ [CHR 0x22] @ ''group'' @ [CHR 0x22] @ '':'' @ [CHR 0x22] @ ''g'' @ [CHR 0x22] @ '','' @ [CHR 0x22] @ ''image'' @ [CHR 0x22] @ '':'' @ [CHR 0x22] @ ''canary'' @ [CHR 0x22] @ ''}'')]
   \<and> requested_bodies (DatabaseClient_create
       \<lparr>fetch = (\<lambda>call. None), Date_now = 0\<rparr>
       \<lparr>token = ''t'', org = None, baseUrl = Absent\<rparr> ''db1''
       (Some [(''image'', JStr ''latest''), (''group'', JUndefined)]))
     = [Some (''{'' @ [CHR 0x22] @ ''name'' @ [CHR 0x22] @ '':'' @ [CHR 0x22] @ ''db1'' @ [CHR 0x22] @ '','' @ [CHR 0x22] @ ''image'' @ [CHR 0x22] @ '':'' @ [CHR 0x22] @ ''latest'' @ [CHR 0x22] @ ''}'')]
   \<and> requested_bodies (DatabaseClient_create
       \<lparr>fetch = (\<lambda>call. None), Date_now = 0\<rparr>
       \<lparr>token = ''t'', org = None, baseUrl = Absent\<rparr>
       (''a'' @ [CHR 0x22] @ ''b'' @ [CHR 0x5C] @ ''c'' @ [CHR 0x0A] @ [CHR 0x01]) None)
     = [Some (''{'' @ [CHR 0x22] @ ''name'' @ [CHR 0x22] @ '':'' @ [CHR 0x22] @ ''a'' @ [CHR 0x5C] @ [CHR 0x22] @ ''b'' @ [CHR 0x5C] @ [CHR 0x5C] @ ''c'' @ [CHR 0x5C] @ ''n'' @ [CHR 0x5C] @ ''u0001'' @ [CHR 0x22] @ ''}'')]"
proof -
  let ?e = "\<lparr>fetch = (\<lambda>call. None), Date_now = 0\<rparr>"
  let ?cfg = "\<lparr>token = ''t'', org = None, baseUrl = Absent\<rparr>"
  note eval = intercalate_def quote_def escape_char_def hex_lower_def
  have 1: "requested_bodies (DatabaseClient_create ?e ?cfg ''db1'' None)
     = [Some (''{'' @ [CHR 0x22] @ ''name'' @ [CHR 0x22] @ '':'' @ [CHR 0x22] @ ''db1'' @ [CHR 0x22] @ ''}'')]"
    using create_body [where e = ?e and cfg = ?cfg and name = "''db1''" and props = "[]"]
    by (simp add: eval)
  have 2: "requested_bodies (DatabaseClient_create ?e ?cfg ''db1''
       (Some [(''group'', JStr ''g''), (''image'', JStr ''canary'')]))
     = [Some (''{'' @ [CHR 0x22] @ ''name'' @ [CHR 0x22] @ '':'' @ [CHR 0x22] @ ''db1'' @ [CHR 0x22] @ '','' @ [CHR 0x22] @ ''group'' @ [CHR 0x22] @ '':'' @ [CHR 0x22] @ ''g'' @ [CHR 0x22] @ '','' @ [CHR 0x22] @ ''image'' @ [CHR 0x22] @ '':'' @ [CHR 0x22] @ ''canary'' @ [CHR 0x22] @ ''}'')]"
    using create_body [where e = ?e and cfg = ?cfg and name = "''db1''"
        and props = "[(''group'', JStr ''g''), (''image'', JStr ''canary'')]"]
    by (simp add: eval)
  have 3: "requested_bodies (DatabaseClient_create ?e ?cfg ''db1''
       (Some [(''image'', JStr ''latest''), (''group'', JUndefined)]))
     = [Some (''{'' @ [CHR 0x22] @ ''name'' @ [CHR 0x22] @ '':'' @ [CHR 0x22] @ ''db1'' @ [CHR 0x22] @ '','' @ [CHR 0x22] @ ''image'' @ [CHR 0x22] @ '':'' @ [CHR 0x22] @ ''latest'' @ [CHR 0x22] @ ''}'')]"
    using create_body [where e = ?e and cfg = ?cfg and name = "''db1''"
        and props = "[(''image'', JStr ''latest''), (''group'', JUndefined)]"]
    by (simp add: eval)
  have 4: "requested_bodies (DatabaseClient_create ?e ?cfg
       (''a'' @ [CHR 0x22] @ ''b'' @ [CHR 0x5C] @ ''c'' @ [CHR 0x0A] @ [CHR 0x01]) None)
     = [Some (''{'' @ [CHR 0x22] @ ''name'' @ [CHR 0x22] @ '':'' @ [CHR 0x22] @ ''a'' @ [CHR 0x5C] @ [CHR 0x22] @ ''b'' @ [CHR 0x5C] @ [CHR 0x5C] @ ''c'' @ [CHR 0x5C] @ ''n'' @ [CHR 0x5C] @ ''u0001'' @ [CHR 0x22] @ ''}'')]"
    using create_body [where e = ?e and cfg = ?cfg
        and name = "''a'' @ [CHR 0x22] @ ''b'' @ [CHR 0x5C] @ ''c'' @ [CHR 0x0A] @ [CHR 0x01]" and props = "[]", THEN conjunct1]
    by (simp add: eval)
  from 1 2 3 4 show ?thesis by simp
qed

end
